theory Spec2Isabelle
  imports Complex_Main
begin

section \<open>Values of the Python programs\<close>

text \<open>
  The three programs (\<^verbatim>\<open>generate_data.py\<close>, \<^verbatim>\<open>Dashboard.py\<close>,
  \<^verbatim>\<open>statistical_process_control.py\<close>) compute with Python integers and with
  binary64 floats. Integers are \<^typ>\<open>int\<close>. A finite float is idealised as a
  \<^typ>\<open>real\<close>: the basic operations are taken without rounding error and without
  overflow. The exceptions Python raises are values of \<open>py_error\<close>, and every
  function that can raise returns a sum with the error on the left.
\<close>

datatype py_error = IndexError | ValueError | ZeroDivisionError | TypeError

text \<open>
  The random draws of \<^verbatim>\<open>numpy.random\<close> and \<^verbatim>\<open>random\<close> are arguments of
  the functions that make them. What the library promises about a draw is a predicate on
  the argument.
\<close>

definition randint_draw :: "int \<Rightarrow> int \<Rightarrow> int \<Rightarrow> bool" where
  \<comment> \<open>\<^verbatim>\<open>np.random.randint(low, high)\<close>: an integer of the half-open range.\<close>
  "randint_draw low high k \<longleftrightarrow> low \<le> k \<and> k < high"

definition uniform_draw :: "real \<Rightarrow> real \<Rightarrow> real \<Rightarrow> bool" where
  \<comment> \<open>\<^verbatim>\<open>np.random.uniform(low, high)\<close>.\<close>
  "uniform_draw low high x \<longleftrightarrow> low \<le> x \<and> x < high"

section \<open>The production record\<close>

text \<open>
  One row of the table the dashboard keeps in its session state: the six columns of
  \<^verbatim>\<open>st.session_state.oee_df\<close>. \<open>Date\<close> counts days. A dataframe is the list
  of its rows, oldest first.
\<close>

record production_row =
  Date :: int
  Line :: string
  Production_Volume :: int
  Defects_Total :: int
  Downtime_Total :: real
  Average_Cycle_Time :: real

type_synonym dataframe = "production_row list"

section \<open>Dashboard.py: simulate\_new\_row\<close>

text \<open>The four draws of one call, in the order the source makes them.\<close>

record sim_draws =
  volume_step :: int
  defects_step :: int
  downtime_step :: int
  cycle_step :: real

definition sim_draws_ok :: "sim_draws \<Rightarrow> bool" where
  "sim_draws_ok dr \<longleftrightarrow>
     randint_draw (-15) 15 (volume_step dr) \<and>
     randint_draw (-3) 3 (defects_step dr) \<and>
     randint_draw (-20) 20 (downtime_step dr) \<and>
     uniform_draw (-0.15) 0.15 (cycle_step dr)"

text \<open>
  \<^verbatim>\<open>df.iloc[-1]\<close> raises IndexError on an empty frame. Otherwise the last row is
  copied, its date moved one day on, its four measures stepped and clamped, the row is
  appended and \<^verbatim>\<open>df.iloc[1:]\<close> drops the first row.
\<close>

definition simulate_new_row :: "dataframe \<Rightarrow> sim_draws \<Rightarrow> py_error + dataframe" where
  "simulate_new_row df dr =
     (if df = [] then Inl IndexError
      else
        let new_row = last df;
            new_row = new_row\<lparr>Date := Date new_row + 1\<rparr>;
            new_row = new_row\<lparr>Production_Volume :=
                        max 0 (Production_Volume new_row + volume_step dr)\<rparr>;
            new_row = new_row\<lparr>Defects_Total :=
                        max 0 (Defects_Total new_row + defects_step dr)\<rparr>;
            new_row = new_row\<lparr>Downtime_Total :=
                        max 0 (Downtime_Total new_row + real_of_int (downtime_step dr))\<rparr>;
            new_row = new_row\<lparr>Average_Cycle_Time :=
                        max (1 / 10) (Average_Cycle_Time new_row + cycle_step dr)\<rparr>;
            df = df @ [new_row]
        in Inr (tl df))"

section \<open>Float columns with the special values\<close>

text \<open>
  A pandas division by zero does not raise: it gives an infinity or NaN, and
  \<^verbatim>\<open>np.sqrt\<close> of a negative number gives NaN. A cell of a float column is
  therefore a finite value, one of the two infinities, or NaN. The operations follow
  IEEE 754 on the special values and are exact on the finite ones.
\<close>

datatype fval = Fin real | PInf | NInf | NaN

fun fneg :: "fval \<Rightarrow> fval" where
  "fneg (Fin a) = Fin (- a)"
| "fneg PInf = NInf"
| "fneg NInf = PInf"
| "fneg NaN = NaN"

fun fadd :: "fval \<Rightarrow> fval \<Rightarrow> fval" where
  "fadd (Fin a) (Fin b) = Fin (a + b)"
| "fadd NaN y = NaN"
| "fadd x NaN = NaN"
| "fadd PInf NInf = NaN"
| "fadd NInf PInf = NaN"
| "fadd PInf y = PInf"
| "fadd x PInf = PInf"
| "fadd NInf y = NInf"
| "fadd x NInf = NInf"

definition fsub :: "fval \<Rightarrow> fval \<Rightarrow> fval" where
  "fsub x y = fadd x (fneg y)"

definition inf_of_sign :: "real \<Rightarrow> fval" where
  \<comment> \<open>The infinity with the sign of a product or quotient, NaN for a zero against an infinity.\<close>
  "inf_of_sign a = (if 0 < a then PInf else if a < 0 then NInf else NaN)"

fun fmul :: "fval \<Rightarrow> fval \<Rightarrow> fval" where
  "fmul (Fin a) (Fin b) = Fin (a * b)"
| "fmul NaN y = NaN"
| "fmul x NaN = NaN"
| "fmul (Fin a) PInf = inf_of_sign a"
| "fmul (Fin a) NInf = inf_of_sign (- a)"
| "fmul PInf (Fin b) = inf_of_sign b"
| "fmul NInf (Fin b) = inf_of_sign (- b)"
| "fmul PInf PInf = PInf"
| "fmul PInf NInf = NInf"
| "fmul NInf PInf = NInf"
| "fmul NInf NInf = PInf"

fun fdiv :: "fval \<Rightarrow> fval \<Rightarrow> fval" where
  "fdiv (Fin a) (Fin b) = (if b \<noteq> 0 then Fin (a / b) else inf_of_sign a)"
| "fdiv NaN y = NaN"
| "fdiv x NaN = NaN"
| "fdiv (Fin a) PInf = Fin 0"
| "fdiv (Fin a) NInf = Fin 0"
| "fdiv PInf (Fin b) = (if 0 \<le> b then PInf else NInf)"
| "fdiv NInf (Fin b) = (if 0 \<le> b then NInf else PInf)"
| "fdiv PInf PInf = NaN"
| "fdiv PInf NInf = NaN"
| "fdiv NInf PInf = NaN"
| "fdiv NInf NInf = NaN"

fun fsqrt :: "fval \<Rightarrow> fval" where
  "fsqrt (Fin a) = (if a < 0 then NaN else Fin (sqrt a))"
| "fsqrt PInf = PInf"
| "fsqrt NInf = NaN"
| "fsqrt NaN = NaN"

fun fabs :: "fval \<Rightarrow> fval" where
  "fabs (Fin a) = Fin \<bar>a\<bar>"
| "fabs PInf = PInf"
| "fabs NInf = PInf"
| "fabs NaN = NaN"

fun fval_between :: "real \<Rightarrow> real \<Rightarrow> fval \<Rightarrow> bool" where
  \<comment> \<open>\<open>lo \<le> x \<le> hi\<close> as Python compares floats: false on NaN.\<close>
  "fval_between lo hi (Fin a) \<longleftrightarrow> lo \<le> a \<and> a \<le> hi"
| "fval_between lo hi PInf \<longleftrightarrow> False"
| "fval_between lo hi NInf \<longleftrightarrow> False"
| "fval_between lo hi NaN \<longleftrightarrow> False"

subsection \<open>The pandas reductions the programs use\<close>

definition series_sum :: "fval list \<Rightarrow> fval" where
  \<comment> \<open>\<^verbatim>\<open>Series.sum()\<close>: NaN cells are skipped.\<close>
  "series_sum xs = foldl fadd (Fin 0) (filter (\<lambda>x. x \<noteq> NaN) xs)"

definition series_mean :: "fval list \<Rightarrow> fval" where
  \<comment> \<open>\<^verbatim>\<open>Series.mean()\<close>: the sum over the count of the cells that are not NaN,
      NaN when there is none.\<close>
  "series_mean xs =
     (let count = length (filter (\<lambda>x. x \<noteq> NaN) xs)
      in if count = 0 then NaN else fdiv (series_sum xs) (Fin (real count)))"

definition series_std :: "real list \<Rightarrow> fval" where
  \<comment> \<open>\<^verbatim>\<open>Series.std()\<close> of a column without NaN: the sample standard deviation
      (\<open>ddof = 1\<close>), NaN below two cells.\<close>
  "series_std xs =
     (let n = length xs; m = sum_list xs / real n
      in if n < 2 then NaN
         else Fin (sqrt (sum_list (map (\<lambda>x. (x - m)\<^sup>2) xs) / real (n - 1))))"

fun series_diff :: "real list \<Rightarrow> fval list" where
  \<comment> \<open>\<^verbatim>\<open>Series.diff()\<close>: NaN in the first cell, then each cell minus the one before.\<close>
  "series_diff [] = []"
| "series_diff (x # xs) = NaN # map2 (\<lambda>prev cur. Fin (cur - prev)) (x # xs) xs"

section \<open>Dashboard.py: calculate\_oee\_metrics\<close>

text \<open>
  The function returns a copy of the frame with four more columns. The frame it returns
  is the rows it was given and the four columns, cell \<open>i\<close> of a column belonging to
  row \<open>i\<close>.
\<close>

record oee_frame =
  rows :: dataframe
  Availability :: "fval list"
  Performance :: "fval list"
  Quality :: "fval list"
  OEE :: "fval list"

definition optimal_cycle_time :: "dataframe \<Rightarrow> fval" where
  "optimal_cycle_time df =
     fsub (series_mean (map (\<lambda>r. Fin (Average_Cycle_Time r)) df))
          (series_std (map Average_Cycle_Time df))"

definition calculate_oee_metrics :: "dataframe \<Rightarrow> oee_frame" where
  "calculate_oee_metrics df =
     (let scheduled_time = Fin 420;
          optimal_cycle_time = optimal_cycle_time df;
          availability =
            map (\<lambda>r. fdiv (fsub scheduled_time (Fin (Downtime_Total r))) scheduled_time) df;
          performance =
            map (\<lambda>r. fdiv (fmul optimal_cycle_time (Fin (real_of_int (Production_Volume r))))
                          scheduled_time) df;
          quality =
            map (\<lambda>r. fdiv (Fin (real_of_int (Production_Volume r - Defects_Total r)))
                          (if Production_Volume r = 0 then NaN
                           else Fin (real_of_int (Production_Volume r)))) df
      in \<lparr>rows = df,
          Availability = availability,
          Performance = performance,
          Quality = quality,
          OEE = map2 fmul (map2 fmul availability performance) quality\<rparr>)"

section \<open>statistical\_process\_control.py\<close>

subsection \<open>calculate\_oee\_metrics\<close>

text \<open>
  The second \<^verbatim>\<open>calculate_oee_metrics\<close> writes the column \<^verbatim>\<open>OEE\<close> into the
  frame it is given and returns the three factor columns and the mean of the OEE
  column. Here the volume divides as it is: a volume of 0 gives an infinity or NaN.
\<close>

record spc_oee =
  spc_availability :: "fval list"
  spc_performance :: "fval list"
  spc_quality :: "fval list"
  spc_OEE :: "fval list"
  average_oee :: fval

definition spc_calculate_oee_metrics :: "dataframe \<Rightarrow> spc_oee" where
  "spc_calculate_oee_metrics df =
     (let scheduled_time = Fin 420;
          optimal_cycle_time =
            fsub (series_mean (map (\<lambda>r. Fin (Average_Cycle_Time r)) df))
                 (series_std (map Average_Cycle_Time df));
          availability =
            map (\<lambda>r. fdiv (fsub scheduled_time (Fin (Downtime_Total r))) scheduled_time) df;
          performance =
            map (\<lambda>r. fdiv (fmul optimal_cycle_time (Fin (real_of_int (Production_Volume r))))
                          scheduled_time) df;
          quality =
            map (\<lambda>r. fdiv (Fin (real_of_int (Production_Volume r - Defects_Total r)))
                          (Fin (real_of_int (Production_Volume r)))) df;
          oee = map2 fmul (map2 fmul availability performance) quality
      in \<lparr>spc_availability = availability,
          spc_performance = performance,
          spc_quality = quality,
          spc_OEE = oee,
          average_oee = series_mean oee\<rparr>)"

subsection \<open>p\_chart\<close>

text \<open>
  \<^verbatim>\<open>p_chart\<close> adds the columns \<^verbatim>\<open>p\<close>, \<^verbatim>\<open>UCL\<close> and \<^verbatim>\<open>LCL\<close> to the
  frame (the column \<^verbatim>\<open>p\<close> is the field \<open>p_col\<close>); \<open>p_bar\<close> is the centre line it draws. The two sums are integer sums, their
  quotient a numpy float division.
\<close>

record p_chart_columns =
  p_bar :: fval
  p_col :: "fval list"
  UCL :: "fval list"
  LCL :: "fval list"

definition p_chart :: "dataframe \<Rightarrow> p_chart_columns" where
  "p_chart df =
     (let p_bar = fdiv (Fin (real_of_int (sum_list (map Defects_Total df))))
                       (Fin (real_of_int (sum_list (map Production_Volume df))))
      in \<lparr>p_bar = p_bar,
          p_col = map (\<lambda>r. fdiv (Fin (real_of_int (Defects_Total r)))
                            (Fin (real_of_int (Production_Volume r)))) df,
          UCL = map (\<lambda>r. fadd p_bar (fmul (Fin 3)
                      (fsqrt (fdiv (fmul p_bar (fsub (Fin 1) p_bar))
                                   (Fin (real_of_int (Production_Volume r))))))) df,
          LCL = map (\<lambda>r. fsub p_bar (fmul (Fin 3)
                      (fsqrt (fdiv (fmul p_bar (fsub (Fin 1) p_bar))
                                   (Fin (real_of_int (Production_Volume r))))))) df\<rparr>)"

subsection \<open>imr\_chart\_cycle\_time and imr\_chart\_downtime\<close>

text \<open>
  Each I-MR function writes four columns: the mean of the series in every cell, the
  moving range, and the two limits. \<open>MR_bar\<close> is the mean of the moving range, which
  skips the NaN of its first cell.
\<close>

record imr_cycle_time_columns =
  Cycle_Time_Mean :: "fval list"
  MR :: "fval list"
  MR_bar :: fval
  UCL_I :: "fval list"
  LCL_I :: "fval list"

definition imr_chart_cycle_time :: "dataframe \<Rightarrow> imr_cycle_time_columns" where
  "imr_chart_cycle_time df =
     (let Cycle_Time_Mean =
            replicate (length df) (series_mean (map (\<lambda>r. Fin (Average_Cycle_Time r)) df));
          MR = map fabs (series_diff (map Average_Cycle_Time df));
          MR_bar = series_mean MR
      in \<lparr>Cycle_Time_Mean = Cycle_Time_Mean,
          MR = MR,
          MR_bar = MR_bar,
          UCL_I = map (\<lambda>m. fadd m (fmul (Fin 3) (fdiv MR_bar (Fin 1.128)))) Cycle_Time_Mean,
          LCL_I = map (\<lambda>m. fsub m (fmul (Fin 3) (fdiv MR_bar (Fin 1.128)))) Cycle_Time_Mean\<rparr>)"

record imr_downtime_columns =
  Downtime_Mean :: "fval list"
  MR_Downtime :: "fval list"
  MR_bar_Downtime :: fval
  UCL_Downtime :: "fval list"
  LCL_Downtime :: "fval list"

definition imr_chart_downtime :: "dataframe \<Rightarrow> imr_downtime_columns" where
  "imr_chart_downtime df =
     (let Downtime_Mean =
            replicate (length df) (series_mean (map (\<lambda>r. Fin (Downtime_Total r)) df));
          MR_Downtime = map fabs (series_diff (map Downtime_Total df));
          MR_bar_Downtime = series_mean MR_Downtime
      in \<lparr>Downtime_Mean = Downtime_Mean,
          MR_Downtime = MR_Downtime,
          MR_bar_Downtime = MR_bar_Downtime,
          UCL_Downtime =
            map (\<lambda>m. fadd m (fmul (Fin 3) (fdiv MR_bar_Downtime (Fin 1.128)))) Downtime_Mean,
          LCL_Downtime =
            map (\<lambda>m. fsub m (fmul (Fin 3) (fdiv MR_bar_Downtime (Fin 1.128)))) Downtime_Mean\<rparr>)"

section \<open>generate\_data.py\<close>

subsection \<open>Draws, rounding and dictionaries\<close>

definition random_draw :: "real \<Rightarrow> bool" where
  \<comment> \<open>\<^verbatim>\<open>random.random()\<close>\<close>
  "random_draw u \<longleftrightarrow> 0 \<le> u \<and> u < 1"

definition binomial_draw :: "int \<Rightarrow> int \<Rightarrow> bool" where
  \<comment> \<open>\<^verbatim>\<open>np.random.binomial(n, p)\<close>: a number of successes among \<open>n\<close> trials.\<close>
  "binomial_draw n b \<longleftrightarrow> 0 \<le> b \<and> b \<le> n"

definition gamma_draw :: "real \<Rightarrow> bool" where
  \<comment> \<open>\<^verbatim>\<open>np.random.gamma(shape, scale)\<close>\<close>
  "gamma_draw g \<longleftrightarrow> 0 \<le> g"

definition multinomial_draw :: "int \<Rightarrow> nat \<Rightarrow> int list \<Rightarrow> bool" where
  \<comment> \<open>\<^verbatim>\<open>np.random.multinomial(n, pvals)\<close> with \<open>k\<close> weights: \<open>k\<close> counts, none
      negative, that add up to \<open>n\<close>.\<close>
  "multinomial_draw n k ms \<longleftrightarrow>
     length ms = k \<and> list_all (\<lambda>m. 0 \<le> m) ms \<and> sum_list ms = n"

definition rint :: "real \<Rightarrow> int" where
  \<comment> \<open>The nearest integer, a tie going to the even one.\<close>
  "rint x =
     (let f = \<lfloor>x\<rfloor>; d = x - real_of_int f
      in if d < 1 / 2 then f else if 1 / 2 < d then f + 1
         else if even f then f else f + 1)"

definition py_round :: "real \<Rightarrow> nat \<Rightarrow> real" where
  \<comment> \<open>\<^verbatim>\<open>round(x, ndigits)\<close> on a float.\<close>
  "py_round x ndigits = real_of_int (rint (x * 10 ^ ndigits)) / 10 ^ ndigits"

definition py_int :: "real \<Rightarrow> int" where
  \<comment> \<open>\<^verbatim>\<open>int(x)\<close> on a float: towards zero.\<close>
  "py_int x = (if 0 \<le> x then \<lfloor>x\<rfloor> else \<lceil>x\<rceil>)"

definition py_truediv :: "int \<Rightarrow> int \<Rightarrow> py_error + real" where
  \<comment> \<open>\<^verbatim>\<open>a / b\<close> on Python integers.\<close>
  "py_truediv a b = (if b = 0 then Inl ZeroDivisionError else Inr (real_of_int a / real_of_int b))"

text \<open>
  A dictionary keeps its keys in insertion order; assigning to a key that is present
  keeps the key's place.
\<close>

type_synonym 'v py_dict = "(string \<times> 'v) list"

fun dict_set :: "string \<Rightarrow> 'v \<Rightarrow> 'v py_dict \<Rightarrow> 'v py_dict" where
  "dict_set k v [] = [(k, v)]"
| "dict_set k v (e # es) = (if fst e = k then (k, v) # es else e # dict_set k v es)"

definition dict_values :: "'v py_dict \<Rightarrow> 'v list" where
  "dict_values d = map snd d"

subsection \<open>generate\_defects\<close>

text \<open>
  The draws are the binomial count and the multinomial split. \<^verbatim>\<open>np.random.binomial\<close>
  raises ValueError on a negative number of trials and on a probability outside
  \<open>[0, 1]\<close>. Reading a split shorter than the five keys would raise IndexError.
\<close>

definition defect_types_init :: "int py_dict" where
  "defect_types_init =
     [(''Dimensional'', 0), (''Surface'', 0), (''Assembly'', 0), (''Material'', 0), (''Other'', 0)]"

definition generate_defects ::
  "int \<Rightarrow> real \<Rightarrow> real \<Rightarrow> int \<Rightarrow> int list \<Rightarrow> py_error + (int py_dict \<times> int)" where
  "generate_defects production_volume base_defect_rate quality_factor binomial_sample multinomial_sample =
     (let effective_defect_rate = base_defect_rate * (1 - quality_factor)
      in if production_volume < 0 \<or> effective_defect_rate < 0 \<or> 1 < effective_defect_rate
         then Inl ValueError
         else
           let total_defects = binomial_sample;
               defect_types = defect_types_init
           in if 0 < total_defects
              then
                if length multinomial_sample < length defect_types then Inl IndexError
                else Inr (fold (\<lambda>(i, defect_type) d. dict_set defect_type (multinomial_sample ! i) d)
                               (enumerate 0 (map fst defect_types)) defect_types,
                          total_defects)
              else Inr (defect_types, total_defects))"

subsection \<open>generate\_downtime\<close>

text \<open>
  The draws are \<^verbatim>\<open>random.random()\<close>, the gamma variate and the split of 100 over the
  five causes. \<^verbatim>\<open>np.random.gamma\<close> raises ValueError on a negative scale. The total
  is returned as drawn and clamped; each cause is rounded to one decimal.
\<close>

definition downtime_causes_init :: "real py_dict" where
  "downtime_causes_init =
     [(''Maintenance'', 0), (''Setup/Changeover'', 0), (''Breakdown'', 0),
      (''Material Shortage'', 0), (''Operator Absence'', 0)]"

definition generate_downtime ::
  "real \<Rightarrow> real \<Rightarrow> real \<Rightarrow> real \<Rightarrow> int list \<Rightarrow> py_error + (real py_dict \<times> real)" where
  "generate_downtime mean_downtime_minutes reliability_factor random_sample gamma_sample multinomial_sample =
     (let effective_downtime = mean_downtime_minutes * (1 - reliability_factor)
      in if random_sample < 0.8
         then
           if effective_downtime / 2 < 0 then Inl ValueError
           else
             let total_downtime = gamma_sample;
                 total_downtime = min (max total_downtime 0) (mean_downtime_minutes * 5);
                 downtime_causes = downtime_causes_init
             in if length multinomial_sample < length downtime_causes then Inl IndexError
                else Inr (fold (\<lambda>(i, cause) d.
                                  dict_set cause
                                    (py_round (total_downtime * real_of_int (multinomial_sample ! i) / 100) 1) d)
                               (enumerate 0 (map fst downtime_causes)) downtime_causes,
                          total_downtime)
         else Inr (map (\<lambda>cause. (cause, 0))
                     [''Maintenance'', ''Setup/Changeover'', ''Breakdown'',
                      ''Material Shortage'', ''Operator Absence''],
                   0))"

subsection \<open>calculate\_quality\_metrics\<close>

text \<open>
  \<^verbatim>\<open>(1 - defect_rate) ** 1.5\<close>: Python gives a complex number for a negative base
  with a fractional exponent, and \<^verbatim>\<open>round\<close> raises TypeError on every complex
  number, so the model keeps only that the power is complex.
\<close>

datatype py_power = PowFloat real | PowComplex

definition py_pow :: "real \<Rightarrow> real \<Rightarrow> py_power" where
  \<comment> \<open>For the exponent 1.5 of the source; not for integral exponents.\<close>
  "py_pow x y = (if x < 0 then PowComplex else PowFloat (x powr y))"

definition np_log10 :: "real \<Rightarrow> fval" where
  "np_log10 x = (if x < 0 then NaN else if x = 0 then NInf else Fin (log 10 x))"

fun fless :: "fval \<Rightarrow> fval \<Rightarrow> bool" where
  \<comment> \<open>\<open>x < y\<close> on floats: false when either is NaN.\<close>
  "fless (Fin a) (Fin b) \<longleftrightarrow> a < b"
| "fless NaN y \<longleftrightarrow> False"
| "fless x NaN \<longleftrightarrow> False"
| "fless x NInf \<longleftrightarrow> False"
| "fless PInf y \<longleftrightarrow> False"
| "fless NInf y \<longleftrightarrow> True"
| "fless x PInf \<longleftrightarrow> True"

definition py_min :: "fval \<Rightarrow> fval \<Rightarrow> fval" where
  \<comment> \<open>\<^verbatim>\<open>min(a, b)\<close>: the first argument unless the second is smaller.\<close>
  "py_min a b = (if fless b a then b else a)"

definition py_max :: "fval \<Rightarrow> fval \<Rightarrow> fval" where
  \<comment> \<open>\<^verbatim>\<open>max(a, b)\<close>: the first argument unless the second is greater.\<close>
  "py_max a b = (if fless a b then b else a)"

fun fround :: "fval \<Rightarrow> nat \<Rightarrow> fval" where
  "fround (Fin a) n = Fin (py_round a n)"
| "fround PInf n = PInf"
| "fround NInf n = NInf"
| "fround NaN n = NaN"

record quality_metrics =
  FPY :: real
  DPMO :: int
  RTY :: real
  Sigma_Level :: fval

definition calculate_quality_metrics :: "int \<Rightarrow> int \<Rightarrow> py_error + quality_metrics" where
  "calculate_quality_metrics defects_total production_volume =
     (case (if 0 < production_volume then py_truediv defects_total production_volume else Inr 0) of
        Inl e \<Rightarrow> Inl e
      | Inr defect_rate \<Rightarrow>
          let fpy = 1 - defect_rate;
              dpmo = defect_rate * 1000000;
              rty = py_pow (1 - defect_rate) 1.5;
              sigma_level =
                (if defect_rate = 0 then Fin 6
                 else if 1 \<le> defect_rate then Fin 0
                 else py_max (Fin 0) (py_min (Fin 6)
                        (fsub (Fin 0.8406) (fmul (Fin 3.42) (np_log10 defect_rate)))))
          in (case rty of
                PowComplex \<Rightarrow> Inl TypeError
              | PowFloat rty \<Rightarrow>
                  Inr \<lparr>FPY = py_round fpy 4,
                       DPMO = py_int dpmo,
                       RTY = py_round rty 4,
                       Sigma_Level = fround sigma_level 2\<rparr>))"

subsection \<open>generate\_production\_volume\<close>

text \<open>
  The draw is the normal variate. \<^verbatim>\<open>np.random.normal\<close> raises ValueError on a
  negative scale, and the scale is 5 per cent of the effective capacity.
\<close>

definition generate_production_volume :: "int \<Rightarrow> real \<Rightarrow> real \<Rightarrow> real \<Rightarrow> py_error + int" where
  "generate_production_volume base_capacity efficiency_factor downtime_total normal_sample =
     (let available_time = 480 - downtime_total;
          effective_capacity = real_of_int base_capacity * (available_time / 480) * efficiency_factor
      in if effective_capacity * 0.05 < 0 then Inl ValueError
         else
           let actual_production = py_int normal_sample
           in Inr (max 0 (min actual_production (py_int (real_of_int base_capacity * 1.2)))))"

section \<open>A sample frame\<close>

text \<open>Three rows of one line, used to run the functions on concrete data.\<close>

definition sample_frame :: dataframe where
  "sample_frame =
     [\<lparr>Date = 0, Line = ''A'', Production_Volume = 100, Defects_Total = 5,
        Downtime_Total = 42, Average_Cycle_Time = 1\<rparr>,
      \<lparr>Date = 1, Line = ''A'', Production_Volume = 90, Defects_Total = 0,
        Downtime_Total = 0, Average_Cycle_Time = 2\<rparr>,
      \<lparr>Date = 2, Line = ''A'', Production_Volume = 10, Defects_Total = 4,
        Downtime_Total = 84, Average_Cycle_Time = 3\<rparr>]"

section \<open>The I-MR formulas as the specification states them\<close>

text \<open>
  The moving range of a series is the absolute difference of each value and the one
  before it; the individuals limits are the mean of the series plus and minus three
  times the mean moving range over 1.128. These two definitions follow the wording of
  the specification, for comparison with what the two chart functions compute.
\<close>

definition spec_moving_ranges :: "real list \<Rightarrow> real list" where
  "spec_moving_ranges xs = map (\<lambda>k. \<bar>xs ! (k + 1) - xs ! k\<bar>) [0..<length xs - 1]"

definition spec_imr_limits :: "real list \<Rightarrow> real \<times> real" where
  "spec_imr_limits xs =
     (let mean = sum_list xs / real (length xs);
          mr_bar = sum_list (spec_moving_ranges xs) / real (length xs - 1)
      in (mean + 3 * (mr_bar / 1.128), mean - 3 * (mr_bar / 1.128)))"

section \<open>Properties of simulate\_new\_row\<close>

lemma simulate_new_row_shape:
  assumes "df \<noteq> []"
  shows "\<exists>r. simulate_new_row df dr = Inr (tl df @ [r]) \<and>
             0 \<le> Production_Volume r \<and> 0 \<le> Defects_Total r \<and>
             0 \<le> Downtime_Total r \<and> 1 / 10 \<le> Average_Cycle_Time r"
proof -
  define r where "r = (last df)
    \<lparr>Date := Date (last df) + 1,
     Production_Volume := max 0 (Production_Volume (last df) + volume_step dr),
     Defects_Total := max 0 (Defects_Total (last df) + defects_step dr),
     Downtime_Total := max 0 (Downtime_Total (last df) + real_of_int (downtime_step dr)),
     Average_Cycle_Time := max (1 / 10) (Average_Cycle_Time (last df) + cycle_step dr)\<rparr>"
  have "simulate_new_row df dr = Inr (tl (df @ [r]))"
    using assms by (simp add: simulate_new_row_def Let_def r_def)
  moreover have "tl (df @ [r]) = tl df @ [r]"
    using assms by simp
  moreover have "0 \<le> Production_Volume r" "0 \<le> Defects_Total r"
    "0 \<le> Downtime_Total r" "1 / 10 \<le> Average_Cycle_Time r"
    unfolding r_def by (simp_all del: max.bounded_iff add: max.cobounded1)
  ultimately show ?thesis by metis
qed

text \<open>
  Claim C10. On a non-empty dataframe \<open>simulate_new_row\<close> returns a dataframe with the
  same number of rows: the rows after the first are carried over unchanged, each one
  place earlier, and the last row is the simulated one, with Production\_Volume,
  Defects\_Total and Downtime\_Total at least 0 and Average\_Cycle\_Time at least 0.1.
\<close>

theorem simulate_new_row_rolling_window:
  assumes "df \<noteq> []"
  shows "\<exists>out. simulate_new_row df dr = Inr out \<and>
           length out = length df \<and>
           butlast out = tl df \<and>
           (\<forall>i. i + 1 < length df \<longrightarrow> out ! i = df ! (i + 1)) \<and>
           0 \<le> Production_Volume (last out) \<and>
           0 \<le> Defects_Total (last out) \<and>
           0 \<le> Downtime_Total (last out) \<and>
           1 / 10 \<le> Average_Cycle_Time (last out)"
proof -
  from simulate_new_row_shape [OF assms] obtain r where
    out: "simulate_new_row df dr = Inr (tl df @ [r])" and
    r: "0 \<le> Production_Volume r" "0 \<le> Defects_Total r"
       "0 \<le> Downtime_Total r" "1 / 10 \<le> Average_Cycle_Time r"
    by blast
  have len: "length (tl df @ [r]) = length df"
    using assms by (cases df) simp_all
  have carried: "(tl df @ [r]) ! i = df ! (i + 1)" if "i + 1 < length df" for i
    using that by (cases df) (simp_all add: nth_append)
  show ?thesis
    using out r len carried by simp
qed

theorem simulate_new_row_rolling_window_witness:
  "[\<lparr>Date = 0, Line = ''A'', Production_Volume = 100, Defects_Total = 2,
      Downtime_Total = 30, Average_Cycle_Time = 2\<rparr>,
    \<lparr>Date = 1, Line = ''A'', Production_Volume = 90, Defects_Total = 4,
      Downtime_Total = 10, Average_Cycle_Time = 2\<rparr>] \<noteq> [] \<and>
   simulate_new_row
     [\<lparr>Date = 0, Line = ''A'', Production_Volume = 100, Defects_Total = 2,
        Downtime_Total = 30, Average_Cycle_Time = 2\<rparr>,
      \<lparr>Date = 1, Line = ''A'', Production_Volume = 90, Defects_Total = 4,
        Downtime_Total = 10, Average_Cycle_Time = 2\<rparr>]
     \<lparr>volume_step = - 15, defects_step = 2, downtime_step = - 20, cycle_step = 1 / 10\<rparr> =
   Inr [\<lparr>Date = 1, Line = ''A'', Production_Volume = 90, Defects_Total = 4,
          Downtime_Total = 10, Average_Cycle_Time = 2\<rparr>,
        \<lparr>Date = 2, Line = ''A'', Production_Volume = 75, Defects_Total = 6,
          Downtime_Total = 0, Average_Cycle_Time = 21 / 10\<rparr>]"
  using simulate_new_row_rolling_window
    [of "[\<lparr>Date = 0, Line = ''A'', Production_Volume = 100, Defects_Total = 2,
            Downtime_Total = 30, Average_Cycle_Time = 2\<rparr>,
          \<lparr>Date = 1, Line = ''A'', Production_Volume = 90, Defects_Total = 4,
            Downtime_Total = 10, Average_Cycle_Time = 2\<rparr>]"
        "\<lparr>volume_step = - 15, defects_step = 2, downtime_step = - 20, cycle_step = 1 / 10\<rparr>"]
  by (simp add: simulate_new_row_def)

section \<open>Rounding\<close>

lemma rint_bounds: "\<lfloor>x\<rfloor> \<le> rint x \<and> rint x \<le> \<lceil>x\<rceil>"
proof -
  have "x - real_of_int \<lfloor>x\<rfloor> \<noteq> 0 \<Longrightarrow> \<lfloor>x\<rfloor> + 1 = \<lceil>x\<rceil>"
    by (metis ceiling_altdef eq_iff_diff_eq_0 of_int_floor_cancel)
  moreover have "\<lfloor>x\<rfloor> \<le> \<lceil>x\<rceil>"
    by (simp add: floor_le_ceiling)
  ultimately show ?thesis
    unfolding rint_def Let_def by (auto split: if_splits)
qed

lemma rint_ge: "real_of_int a \<le> x \<Longrightarrow> a \<le> rint x"
  using rint_bounds [of x] by (meson le_floor_iff order_trans)

lemma rint_le: "x \<le> real_of_int b \<Longrightarrow> rint x \<le> b"
  using rint_bounds [of x] by (meson ceiling_le_iff order_trans)

lemma rint_of_int [simp]: "rint (real_of_int k) = k"
  by (simp add: rint_def)

lemma rint_error: "\<bar>real_of_int (rint x) - x\<bar> \<le> 1 / 2"
proof -
  have "real_of_int \<lfloor>x\<rfloor> \<le> x" "x < real_of_int \<lfloor>x\<rfloor> + 1"
    by linarith+
  then show ?thesis
    unfolding rint_def Let_def by (auto split: if_splits)
qed

lemma py_round_of_int: "py_round (real_of_int k) n = real_of_int k"
proof -
  have "real_of_int k * 10 ^ n = real_of_int (k * 10 ^ n)" by simp
  then have "rint (real_of_int k * 10 ^ n) = k * 10 ^ n"
    using rint_of_int by metis
  then show ?thesis by (simp add: py_round_def)
qed

lemma py_round_range:
  assumes "real_of_int a \<le> x" "x \<le> real_of_int b"
  shows "real_of_int a \<le> py_round x n \<and> py_round x n \<le> real_of_int b"
proof -
  have pos: "(0::real) < 10 ^ n" by simp
  have "real_of_int (a * 10 ^ n) \<le> x * 10 ^ n"
    using assms(1) pos by (simp add: mult_right_mono)
  then have lo: "a * 10 ^ n \<le> rint (x * 10 ^ n)" by (rule rint_ge)
  have "x * 10 ^ n \<le> real_of_int (b * 10 ^ n)"
    using assms(2) pos by (simp add: mult_right_mono)
  then have hi: "rint (x * 10 ^ n) \<le> b * 10 ^ n" by (rule rint_le)
  from lo have "real_of_int (a * 10 ^ n) \<le> real_of_int (rint (x * 10 ^ n))"
    by (simp only: of_int_le_iff)
  then have 1: "real_of_int a \<le> py_round x n"
    using pos by (simp add: py_round_def pos_le_divide_eq)
  from hi have "real_of_int (rint (x * 10 ^ n)) \<le> real_of_int (b * 10 ^ n)"
    by (simp only: of_int_le_iff)
  then have 2: "py_round x n \<le> real_of_int b"
    using pos by (simp add: py_round_def pos_divide_le_eq)
  from 1 2 show ?thesis ..
qed

lemma py_round_error: "\<bar>py_round x 1 - x\<bar> \<le> 1 / 20"
proof -
  have "\<bar>real_of_int (rint (x * 10)) - x * 10\<bar> \<le> 1 / 2" by (rule rint_error)
  then show ?thesis by (simp add: py_round_def abs_le_iff field_simps)
qed

section \<open>calculate\_quality\_metrics\<close>

lemma py_round_one [simp]: "py_round 1 n = 1"
  using py_round_of_int [of 1 n] by simp

lemma py_round_six: "py_round 6 n = 6"
  using py_round_of_int [of 6 n] by simp

lemma py_round_zero [simp]: "py_round 0 n = 0"
  by (simp add: py_round_def rint_def)

lemma calculate_quality_metrics_no_volume:
  assumes "\<not> 0 < v"
  shows "calculate_quality_metrics d v = Inr \<lparr>FPY = 1, DPMO = 0, RTY = 1, Sigma_Level = Fin 6\<rparr>"
  using assms
  by (simp add: calculate_quality_metrics_def py_pow_def py_int_def py_round_six)

lemma calculate_quality_metrics_errors:
  "calculate_quality_metrics d v = Inl e \<Longrightarrow> e = TypeError \<and> 0 < v \<and> v < d"
  by (auto simp: calculate_quality_metrics_def py_truediv_def py_pow_def Let_def
           split: if_splits py_power.splits)

text \<open>
  Claim C8. \<open>calculate_quality_metrics\<close> never raises ZeroDivisionError, whatever the
  two arguments: the one division is guarded by \<open>production_volume > 0\<close>. When the
  volume is not positive the defect rate is 0 and the function returns FPY = 1,
  DPMO = 0, RTY = 1 and Sigma\_Level = 6.
\<close>

theorem calculate_quality_metrics_zero_guard:
  "calculate_quality_metrics d v \<noteq> Inl ZeroDivisionError \<and>
   (\<not> 0 < v \<longrightarrow>
      calculate_quality_metrics d v = Inr \<lparr>FPY = 1, DPMO = 0, RTY = 1, Sigma_Level = Fin 6\<rparr>)"
  using calculate_quality_metrics_errors [of d v ZeroDivisionError]
        calculate_quality_metrics_no_volume [of v d]
  by blast

theorem calculate_quality_metrics_zero_guard_witness:
  "\<not> 0 < (0::int) \<and>
   calculate_quality_metrics 7 0 \<noteq> Inl ZeroDivisionError \<and>
   calculate_quality_metrics 7 0 = Inr \<lparr>FPY = 1, DPMO = 0, RTY = 1, Sigma_Level = Fin 6\<rparr>"
  using calculate_quality_metrics_zero_guard [of 7 0] by simp

text \<open>
  With more defects than units the defect rate is above 1, \<open>1 - defect_rate\<close> is
  negative, its power 1.5 is a complex number and rounding it raises TypeError: the
  function returns no metrics at all, although its own branch
  \<^verbatim>\<open>elif defect_rate >= 1\<close> sets the sigma level of such a rate to 0.
\<close>

lemma calculate_quality_metrics_raises:
  assumes "0 < v" "v < d"
  shows "calculate_quality_metrics d v = Inl TypeError"
  using assms
  by (simp add: calculate_quality_metrics_def py_truediv_def py_pow_def Let_def)

text \<open>
  Claim C9. The claim gives Sigma\_Level = 0.0 for every defect rate of at least 1,
  among them 3 defects on 2 units. There the function raises TypeError instead of
  returning a Sigma\_Level.
\<close>

theorem calculate_quality_metrics_sigma_failing_input:
  "calculate_quality_metrics 3 2 = Inl TypeError"
  by (simp add: calculate_quality_metrics_def py_truediv_def py_pow_def Let_def)

lemma py_min_Fin: "py_min (Fin a) (Fin b) = Fin (min a b)"
  by (simp add: py_min_def min_def)

lemma py_max_Fin: "py_max (Fin a) (Fin b) = Fin (max a b)"
  by (simp add: py_max_def max_def)

text \<open>
  When the defects do not exceed the volume the function returns, and the sigma level
  it returns is the one the source's three branches describe, within \<open>[0, 6]\<close>.
\<close>

lemma calculate_quality_metrics_sigma_range:
  assumes "0 \<le> d" "d \<le> v"
  shows "\<exists>m s. calculate_quality_metrics d v = Inr m \<and> Sigma_Level m = Fin s \<and>
           0 \<le> s \<and> s \<le> 6 \<and>
           s = (if d = 0 \<or> v = 0 then 6
                else if d = v then 0
                else py_round (max 0 (min 6 (0.8406 - 3.42 * log 10 (real_of_int d / real_of_int v)))) 2)"
proof (cases "0 < v")
  case False
  then have "v = 0" "d = 0" using assms by auto
  then show ?thesis
    by (simp add: calculate_quality_metrics_no_volume)
next
  case True
  define rate where "rate = real_of_int d / real_of_int v"
  have rate: "0 \<le> rate" "rate \<le> 1" "rate = 0 \<longleftrightarrow> d = 0" "1 \<le> rate \<longleftrightarrow> d = v"
    using True assms by (auto simp: rate_def)
  define x where "x = max 0 (min 6 (0.8406 - 3.42 * log 10 rate))"
  have x: "real_of_int 0 \<le> x" "x \<le> real_of_int 6"
    by (simp_all add: x_def)
  have xr: "0 \<le> py_round x 2" "py_round x 2 \<le> 6"
    using py_round_range [OF x, of 2] by simp_all
  have pw: "py_pow (1 - rate) 1.5 = PowFloat ((1 - rate) powr 1.5)"
    using rate by (simp add: py_pow_def)
  have res: "calculate_quality_metrics d v =
      Inr \<lparr>FPY = py_round (1 - rate) 4, DPMO = py_int (rate * 1000000),
           RTY = py_round ((1 - rate) powr 1.5) 4,
           Sigma_Level = (if rate = 0 then Fin 6 else if 1 \<le> rate then Fin 0
                          else Fin (py_round x 2))\<rparr>"
    using True rate(1) pw
    by (simp add: calculate_quality_metrics_def py_truediv_def Let_def rate_def [symmetric]
          np_log10_def fsub_def py_min_Fin py_max_Fin x_def py_round_six)
  show ?thesis
    using res rate xr True unfolding x_def rate_def by auto
qed

section \<open>generate\_production\_volume\<close>

text \<open>
  The bound of claim C7 does not hold unconditionally. With a downtime above the 480
  minutes of the shift the effective capacity is negative and
  \<^verbatim>\<open>np.random.normal\<close> raises ValueError, so no volume is returned. With a
  negative base capacity the ceiling \<open>int(base_capacity * 1.2)\<close> is negative and the
  volume returned, 0, is above it.
\<close>

theorem generate_production_volume_counterexample:
  "generate_production_volume 500 (9 / 10) 500 450 = Inl ValueError \<and>
   generate_production_volume (- 10) (9 / 10) 600 5 = Inr 0 \<and>
   \<not> (0::int) \<le> \<lfloor>1.2 * real_of_int (- 10)\<rfloor>"
  by (simp add: generate_production_volume_def py_int_def)

text \<open>
  Claim C7, amended. For a base capacity and an efficiency factor that are not
  negative and a downtime of at most 480 minutes, \<open>generate_production_volume\<close>
  returns, for every value of the normal draw, an integer volume \<open>v\<close> with
  \<open>0 \<le> v \<le> \<lfloor>1.2 \<times> base_capacity\<rfloor>\<close>.
\<close>

theorem generate_production_volume_clamped:
  assumes "0 \<le> base_capacity" "0 \<le> efficiency_factor" "downtime_total \<le> 480"
  shows "\<exists>v. generate_production_volume base_capacity efficiency_factor downtime_total z = Inr v \<and>
             0 \<le> v \<and> v \<le> \<lfloor>1.2 * real_of_int base_capacity\<rfloor>"
proof -
  have "0 \<le> real_of_int base_capacity * ((480 - downtime_total) / 480) * efficiency_factor"
    using assms by simp
  then have ret: "generate_production_volume base_capacity efficiency_factor downtime_total z =
      Inr (max 0 (min (py_int z) (py_int (real_of_int base_capacity * 1.2))))"
    by (simp add: generate_production_volume_def Let_def not_less)
  have cap: "py_int (real_of_int base_capacity * 1.2) = \<lfloor>1.2 * real_of_int base_capacity\<rfloor>"
    using assms(1) by (simp add: py_int_def mult.commute)
  have "0 \<le> \<lfloor>1.2 * real_of_int base_capacity\<rfloor>"
    using assms(1) by simp
  then show ?thesis
    unfolding ret cap by simp
qed

theorem generate_production_volume_clamped_witness:
  "(0::int) \<le> 500 \<and> (0::real) \<le> 9 / 10 \<and> (30::real) \<le> 480 \<and>
   generate_production_volume 500 (9 / 10) 30 (7003 / 10) = Inr 600 \<and>
   (600::int) \<le> \<lfloor>1.2 * real_of_int 500\<rfloor>"
  using generate_production_volume_clamped [of 500 "9 / 10" 30 "7003 / 10"]
  by (simp add: generate_production_volume_def py_int_def)

section \<open>generate\_defects\<close>

lemma length_five:
  assumes "length ms = 5"
  obtains a b c d e where "ms = [a, b, c, d, e]"
proof -
  from assms obtain a m1 where "ms = a # m1" "length m1 = 4" by (cases ms) auto
  moreover then obtain b m2 where "m1 = b # m2" "length m2 = 3" by (cases m1) auto
  moreover then obtain c m3 where "m2 = c # m3" "length m3 = 2" by (cases m2) auto
  moreover then obtain d m4 where "m3 = d # m4" "length m4 = 1" by (cases m3) auto
  moreover then obtain e where "m4 = [e]" by (cases m4) auto
  ultimately show ?thesis using that by simp
qed

lemma defect_types_fold:
  "fold (\<lambda>(i, defect_type) d. dict_set defect_type ([a, b, c, d0, e] ! i) d)
        (enumerate 0 (map fst defect_types_init)) defect_types_init =
   [(''Dimensional'', a), (''Surface'', b), (''Assembly'', c), (''Material'', d0), (''Other'', e)]"
  by (simp add: defect_types_init_def)

lemma generate_defects_raises:
  "generate_defects pv base qf b ms = Inl err \<Longrightarrow> (0 < b \<Longrightarrow> length ms = 5) \<Longrightarrow>
     err = ValueError \<and> (pv < 0 \<or> base * (1 - qf) < 0 \<or> 1 < base * (1 - qf))"
  by (auto simp: generate_defects_def Let_def defect_types_init_def split: if_splits)

lemma generate_defects_no_defects:
  "generate_defects pv base qf b ms = Inr (types, n_total) \<Longrightarrow> \<not> 0 < b \<Longrightarrow>
     n_total = b \<and> types = defect_types_init"
  by (auto simp: generate_defects_def Let_def split: if_splits)

lemma generate_defects_split:
  "generate_defects pv base qf b [m0, m1, m2, m3, m4] = Inr (types, n_total) \<Longrightarrow> 0 < b \<Longrightarrow>
     n_total = b \<and>
     types = [(''Dimensional'', m0), (''Surface'', m1), (''Assembly'', m2),
              (''Material'', m3), (''Other'', m4)]"
  unfolding generate_defects_def Let_def
  by (simp only: defect_types_fold split: if_splits) (auto simp: defect_types_init_def)

lemma generate_defects_returned:
  assumes "0 \<le> b" and "0 < b \<Longrightarrow> multinomial_draw b 5 ms"
    and "generate_defects production_volume base_defect_rate quality_factor b ms = Inr (types, n_total)"
  shows "map fst types = [''Dimensional'', ''Surface'', ''Assembly'', ''Material'', ''Other''] \<and>
         n_total = b \<and>
         sum_list (dict_values types) = n_total \<and>
         (n_total = 0 \<longrightarrow> dict_values types = [0, 0, 0, 0, 0])"
proof (cases "0 < b")
  case False
  with assms(3) have "n_total = b" "types = defect_types_init"
    using generate_defects_no_defects by blast+
  then show ?thesis
    using False assms(1) by (simp add: defect_types_init_def dict_values_def)
next
  case True
  with assms(2) have md: "length ms = 5" "sum_list ms = b"
    by (simp_all add: multinomial_draw_def)
  from md(1) obtain m0 m1 m2 m3 m4 where ms: "ms = [m0, m1, m2, m3, m4]"
    by (rule length_five)
  from assms(3) True have "n_total = b"
    "types = [(''Dimensional'', m0), (''Surface'', m1), (''Assembly'', m2),
              (''Material'', m3), (''Other'', m4)]"
    unfolding ms using generate_defects_split by blast+
  then show ?thesis
    using md(2) True unfolding ms by (simp add: dict_values_def)
qed

text \<open>
  Claim C4. Whatever the production volume, the base defect rate and the quality
  factor, and whatever the binomial count and the multinomial split numpy draws,
  the five counts \<open>generate_defects\<close> returns (Dimensional, Surface, Assembly,
  Material, Other, in this order) add up to the total it returns, and all five are 0
  when the total is 0. The function returns unless the parameters of the binomial
  draw are invalid, in which case numpy raises ValueError.
\<close>

theorem generate_defects_counts_sum:
  assumes "0 \<le> production_volume \<Longrightarrow> binomial_draw production_volume b"
    and "0 < b \<Longrightarrow> multinomial_draw b 5 ms"
  shows "case generate_defects production_volume base_defect_rate quality_factor b ms of
           Inl err \<Rightarrow>
             err = ValueError \<and>
             (production_volume < 0 \<or> base_defect_rate * (1 - quality_factor) < 0 \<or>
              1 < base_defect_rate * (1 - quality_factor))
         | Inr (defect_types, total_defects) \<Rightarrow>
             map fst defect_types =
               [''Dimensional'', ''Surface'', ''Assembly'', ''Material'', ''Other''] \<and>
             sum_list (dict_values defect_types) = total_defects \<and>
             (total_defects = 0 \<longrightarrow> dict_values defect_types = [0, 0, 0, 0, 0])"
proof (cases "generate_defects production_volume base_defect_rate quality_factor b ms")
  case (Inl err)
  moreover have "0 < b \<Longrightarrow> length ms = 5"
    using assms(2) by (simp add: multinomial_draw_def)
  ultimately show ?thesis
    using generate_defects_raises [of production_volume base_defect_rate quality_factor b ms err]
    by simp
next
  case (Inr res)
  obtain types n_total where res: "res = (types, n_total)" by (cases res)
  have "0 \<le> production_volume"
    using Inr by (auto simp: generate_defects_def Let_def split: if_splits)
  then have "0 \<le> b"
    using assms(1) by (simp add: binomial_draw_def)
  from generate_defects_returned [OF this assms(2) Inr [unfolded res]]
  show ?thesis
    by (simp add: Inr res)
qed

theorem generate_defects_counts_sum_witness:
  "binomial_draw 100 3 \<and> multinomial_draw 3 5 [1, 1, 0, 1, 0] \<and>
   generate_defects 100 (25 / 1000) (8 / 10) 3 [1, 1, 0, 1, 0] =
     Inr ([(''Dimensional'', 1), (''Surface'', 1), (''Assembly'', 0), (''Material'', 1),
           (''Other'', 0)], 3) \<and>
   sum_list (dict_values [(''Dimensional'', 1), (''Surface'', 1), (''Assembly'', 0),
                          (''Material'', 1), (''Other'', 0::int)]) = 3"
  using generate_defects_counts_sum [of 100 3 "[1, 1, 0, 1, 0]" "25 / 1000" "8 / 10"]
  by (simp add: binomial_draw_def multinomial_draw_def generate_defects_def
        defect_types_init_def dict_values_def)

section \<open>generate\_downtime\<close>

lemma downtime_causes_fold:
  "fold (\<lambda>(i, cause) d. dict_set cause (f ([a, b, c, d0, e] ! i)) d)
        (enumerate 0 (map fst downtime_causes_init)) downtime_causes_init =
   [(''Maintenance'', f a), (''Setup/Changeover'', f b), (''Breakdown'', f c),
    (''Material Shortage'', f d0), (''Operator Absence'', f e)]"
  by (simp add: downtime_causes_init_def)

text \<open>
  The sum of claim C3 is not exact. With a gamma draw of 1.04 minutes and the split
  30, 25, 20, 15, 10 the five causes are 0.3, 0.3, 0.2, 0.2 and 0.1 minutes, which add
  up to 1.1, while the total returned is 1.04: each cause is rounded to one decimal
  and the total is not.
\<close>

theorem generate_downtime_counterexample:
  "random_draw (1 / 2) \<and> gamma_draw (26 / 25) \<and> multinomial_draw 100 5 [30, 25, 20, 15, 10] \<and>
   generate_downtime 30 (9 / 10) (1 / 2) (26 / 25) [30, 25, 20, 15, 10] =
     Inr ([(''Maintenance'', 3 / 10), (''Setup/Changeover'', 3 / 10), (''Breakdown'', 1 / 5),
           (''Material Shortage'', 1 / 5), (''Operator Absence'', 1 / 10)], 26 / 25) \<and>
   sum_list (dict_values [(''Maintenance'', 3 / 10), (''Setup/Changeover'', 3 / 10),
       (''Breakdown'', 1 / 5), (''Material Shortage'', 1 / 5),
       (''Operator Absence'', 1 / 10 :: real)]) \<noteq> 26 / 25"
  by (simp add: random_draw_def gamma_draw_def multinomial_draw_def generate_downtime_def downtime_causes_init_def py_round_def rint_def
        dict_values_def Let_def)

lemma sum_rounded_shares:
  fixes t :: real
  assumes "m0 + m1 + m2 + m3 + m4 = (100::int)"
  shows "\<bar>py_round (t * real_of_int m0 / 100) 1 + py_round (t * real_of_int m1 / 100) 1 +
          py_round (t * real_of_int m2 / 100) 1 + py_round (t * real_of_int m3 / 100) 1 +
          py_round (t * real_of_int m4 / 100) 1 - t\<bar> \<le> 1 / 4"
proof -
  define x where "x m = t * real_of_int m / 100" for m
  have "real_of_int (m0 + m1 + m2 + m3 + m4) = 100"
    using assms by simp
  then have "real_of_int m0 + real_of_int m1 + real_of_int m2 + real_of_int m3 + real_of_int m4 = 100"
    by simp
  then have "t * (real_of_int m0 + real_of_int m1 + real_of_int m2 + real_of_int m3 +
      real_of_int m4) / 100 = t"
    by simp
  then have total: "x m0 + x m1 + x m2 + x m3 + x m4 = t"
    unfolding x_def by (simp only: distrib_left add_divide_distrib)
  have "\<bar>py_round (x m) 1 - x m\<bar> \<le> 1 / 20" for m
    by (rule py_round_error)
  from this [of m0] this [of m1] this [of m2] this [of m3] this [of m4] total
  show ?thesis
    unfolding x_def [symmetric] by linarith
qed

lemma generate_downtime_idle:
  assumes "\<not> u < 0.8"
  shows "generate_downtime mean rel u g ms =
     Inr ([(''Maintenance'', 0), (''Setup/Changeover'', 0), (''Breakdown'', 0),
           (''Material Shortage'', 0), (''Operator Absence'', 0)], 0)"
  using assms by (simp add: generate_downtime_def Let_def)

lemma generate_downtime_raises:
  assumes "u < 0.8" "mean * (1 - rel) < 0"
  shows "generate_downtime mean rel u g ms = Inl ValueError"
  using assms by (simp add: generate_downtime_def Let_def)

lemma generate_downtime_shares:
  assumes "u < 0.8" "\<not> mean * (1 - rel) < 0"
  shows "generate_downtime mean rel u g [m0, m1, m2, m3, m4] =
     Inr ([(''Maintenance'', py_round (min (max g 0) (mean * 5) * real_of_int m0 / 100) 1),
           (''Setup/Changeover'', py_round (min (max g 0) (mean * 5) * real_of_int m1 / 100) 1),
           (''Breakdown'', py_round (min (max g 0) (mean * 5) * real_of_int m2 / 100) 1),
           (''Material Shortage'', py_round (min (max g 0) (mean * 5) * real_of_int m3 / 100) 1),
           (''Operator Absence'', py_round (min (max g 0) (mean * 5) * real_of_int m4 / 100) 1)],
          min (max g 0) (mean * 5))"
proof -
  have len: "\<not> length [m0, m1, m2, m3, m4] < length downtime_causes_init"
    by (simp add: downtime_causes_init_def)
  show ?thesis
    unfolding generate_downtime_def Let_def
    using assms len
    by (simp only: downtime_causes_fold
          [of "\<lambda>m. py_round (min (max g 0) (mean * 5) * real_of_int m / 100) 1"]
          if_True if_False) simp
qed

text \<open>
  Claim C3, amended. For every mean downtime and reliability factor and for every
  draw, the split being a multinomial outcome of 100 over the five causes:
  \<open>generate_downtime\<close> raises ValueError when downtime occurs and the effective
  downtime is negative; otherwise it returns the five causes (Maintenance,
  Setup/Changeover, Breakdown, Material Shortage, Operator Absence) and the total.
  When downtime occurs each cause is its share of the total, \<open>total \<times> m / 100\<close>,
  rounded to one decimal; when none occurs the causes are 0 and sum exactly to the
  total 0. In both cases the sum of the causes is within 0.25 of the total.
\<close>

theorem generate_downtime_causes_near_total:
  assumes "multinomial_draw 100 5 ms"
  shows "case generate_downtime mean_downtime_minutes reliability_factor u g ms of
           Inl err \<Rightarrow>
             err = ValueError \<and> u < 0.8 \<and> mean_downtime_minutes * (1 - reliability_factor) < 0
         | Inr (downtime_causes, total_downtime) \<Rightarrow>
             map fst downtime_causes =
               [''Maintenance'', ''Setup/Changeover'', ''Breakdown'', ''Material Shortage'',
                ''Operator Absence''] \<and>
             (if u < 0.8
              then total_downtime = min (max g 0) (mean_downtime_minutes * 5) \<and>
                   dict_values downtime_causes =
                     map (\<lambda>m. py_round (total_downtime * real_of_int m / 100) 1) ms
              else total_downtime = 0 \<and> sum_list (dict_values downtime_causes) = total_downtime) \<and>
             \<bar>sum_list (dict_values downtime_causes) - total_downtime\<bar> \<le> 1 / 4"
proof -
  from assms have md: "length ms = 5" "sum_list ms = 100"
    by (simp_all add: multinomial_draw_def)
  from md(1) obtain m0 m1 m2 m3 m4 where ms: "ms = [m0, m1, m2, m3, m4]"
    by (rule length_five)
  have total: "m0 + m1 + m2 + m3 + m4 = 100"
    using md(2) unfolding ms by simp
  consider (idle) "\<not> u < 0.8"
    | (raises) "u < 0.8" "mean_downtime_minutes * (1 - reliability_factor) < 0"
    | (shares) "u < 0.8" "\<not> mean_downtime_minutes * (1 - reliability_factor) < 0"
    by blast
  then show ?thesis
  proof cases
    case idle
    then show ?thesis
      by (simp add: generate_downtime_idle dict_values_def)
  next
    case raises
    then show ?thesis
      by (simp add: generate_downtime_raises)
  next
    case shares
    define t where "t = min (max g 0) (mean_downtime_minutes * 5)"
    define cs where "cs = map (\<lambda>m. py_round (t * real_of_int m / 100) 1) ms"
    have res: "generate_downtime mean_downtime_minutes reliability_factor u g ms =
        Inr (zip [''Maintenance'', ''Setup/Changeover'', ''Breakdown'', ''Material Shortage'',
                  ''Operator Absence''] cs, t)"
      unfolding ms cs_def t_def generate_downtime_shares [OF shares] by simp
    have keys: "map fst (zip [''Maintenance'', ''Setup/Changeover'', ''Breakdown'',
        ''Material Shortage'', ''Operator Absence''] cs) =
        [''Maintenance'', ''Setup/Changeover'', ''Breakdown'', ''Material Shortage'',
         ''Operator Absence'']"
      unfolding cs_def ms by simp
    have vals: "dict_values (zip [''Maintenance'', ''Setup/Changeover'', ''Breakdown'',
        ''Material Shortage'', ''Operator Absence''] cs) = cs"
      unfolding cs_def ms dict_values_def by simp
    have "sum_list cs =
        py_round (t * real_of_int m0 / 100) 1 + py_round (t * real_of_int m1 / 100) 1 +
        py_round (t * real_of_int m2 / 100) 1 + py_round (t * real_of_int m3 / 100) 1 +
        py_round (t * real_of_int m4 / 100) 1"
      unfolding cs_def ms by simp
    then have near: "\<bar>sum_list cs - t\<bar> \<le> 1 / 4"
      using sum_rounded_shares [OF total, of t] by (simp only:)
    show ?thesis
      unfolding res sum.case prod.case keys vals
      using shares(1) near by (simp only: if_True cs_def t_def simp_thms)
  qed
qed

theorem generate_downtime_causes_near_total_witness:
  "multinomial_draw 100 5 [30, 25, 20, 15, 10] \<and>
   generate_downtime 30 (9 / 10) (1 / 2) (26 / 25) [30, 25, 20, 15, 10] =
     Inr ([(''Maintenance'', 3 / 10), (''Setup/Changeover'', 3 / 10), (''Breakdown'', 1 / 5),
           (''Material Shortage'', 1 / 5), (''Operator Absence'', 1 / 10)], 26 / 25) \<and>
   \<bar>sum_list (dict_values [(''Maintenance'', 3 / 10), (''Setup/Changeover'', 3 / 10),
       (''Breakdown'', 1 / 5), (''Material Shortage'', 1 / 5),
       (''Operator Absence'', 1 / 10 :: real)]) - 26 / 25\<bar> \<le> 1 / 4"
  using generate_downtime_causes_near_total [of "[30, 25, 20, 15, 10]" 30 "9 / 10" "1 / 2" "26 / 25"]
  by (simp add: multinomial_draw_def generate_downtime_def downtime_causes_init_def py_round_def
        rint_def dict_values_def Let_def)

section \<open>The OEE columns\<close>

lemma foldl_fadd_Fin: "foldl fadd (Fin a) (map Fin xs) = Fin (a + sum_list xs)"
  by (induction xs arbitrary: a) (simp_all add: add.assoc)

lemma filter_not_NaN_Fin: "filter (\<lambda>x. x \<noteq> NaN) (map Fin xs) = map Fin xs"
  by (induction xs) simp_all

lemma series_sum_Fin: "series_sum (map Fin xs) = Fin (sum_list xs)"
  by (simp add: series_sum_def filter_not_NaN_Fin foldl_fadd_Fin)

lemma series_mean_Fin:
  "series_mean (map Fin xs) = (if xs = [] then NaN else Fin (sum_list xs / real (length xs)))"
  by (simp add: series_mean_def filter_not_NaN_Fin series_sum_Fin)

lemma optimal_cycle_time_finite:
  assumes "2 \<le> length df"
  shows "optimal_cycle_time df =
    Fin (sum_list (map Average_Cycle_Time df) / real (length df) -
         sqrt (sum_list (map (\<lambda>x. (x - sum_list (map Average_Cycle_Time df) / real (length df))\<^sup>2)
                 (map Average_Cycle_Time df)) / real (length df - 1)))"
proof -
  have ne: "map Average_Cycle_Time df \<noteq> []" using assms by auto
  have m: "series_mean (map (\<lambda>r. Fin (Average_Cycle_Time r)) df) =
      Fin (sum_list (map Average_Cycle_Time df) / real (length df))"
    using series_mean_Fin [of "map Average_Cycle_Time df"] ne by (simp add: comp_def)
  show ?thesis
    unfolding optimal_cycle_time_def m using assms
    by (simp add: series_std_def Let_def fsub_def)
qed

lemma calculate_oee_metrics_cells:
  assumes "i < length df"
  shows "rows (calculate_oee_metrics df) = df"
    and "Availability (calculate_oee_metrics df) ! i =
           fdiv (fsub (Fin 420) (Fin (Downtime_Total (df ! i)))) (Fin 420)"
    and "Performance (calculate_oee_metrics df) ! i =
           fdiv (fmul (optimal_cycle_time df) (Fin (real_of_int (Production_Volume (df ! i)))))
                (Fin 420)"
    and "Quality (calculate_oee_metrics df) ! i =
           fdiv (Fin (real_of_int (Production_Volume (df ! i) - Defects_Total (df ! i))))
                (if Production_Volume (df ! i) = 0 then NaN
                 else Fin (real_of_int (Production_Volume (df ! i))))"
    and "OEE (calculate_oee_metrics df) ! i =
           fmul (fmul (Availability (calculate_oee_metrics df) ! i)
                      (Performance (calculate_oee_metrics df) ! i))
                (Quality (calculate_oee_metrics df) ! i)"
  using assms by (simp_all add: calculate_oee_metrics_def Let_def)

lemma spc_calculate_oee_metrics_cells:
  assumes "i < length df"
  shows "spc_availability (spc_calculate_oee_metrics df) ! i =
           fdiv (fsub (Fin 420) (Fin (Downtime_Total (df ! i)))) (Fin 420)"
    and "spc_performance (spc_calculate_oee_metrics df) ! i =
           fdiv (fmul (optimal_cycle_time df) (Fin (real_of_int (Production_Volume (df ! i)))))
                (Fin 420)"
    and "spc_quality (spc_calculate_oee_metrics df) ! i =
           fdiv (Fin (real_of_int (Production_Volume (df ! i) - Defects_Total (df ! i))))
                (Fin (real_of_int (Production_Volume (df ! i))))"
    and "spc_OEE (spc_calculate_oee_metrics df) ! i =
           fmul (fmul (spc_availability (spc_calculate_oee_metrics df) ! i)
                      (spc_performance (spc_calculate_oee_metrics df) ! i))
                (spc_quality (spc_calculate_oee_metrics df) ! i)"
  using assms by (simp_all add: spc_calculate_oee_metrics_def optimal_cycle_time_def Let_def)

lemma calculate_oee_metrics_lengths:
  "length (Availability (calculate_oee_metrics df)) = length df"
  "length (Performance (calculate_oee_metrics df)) = length df"
  "length (Quality (calculate_oee_metrics df)) = length df"
  "length (OEE (calculate_oee_metrics df)) = length df"
  "length (spc_availability (spc_calculate_oee_metrics df)) = length df"
  "length (spc_performance (spc_calculate_oee_metrics df)) = length df"
  "length (spc_quality (spc_calculate_oee_metrics df)) = length df"
  "length (spc_OEE (spc_calculate_oee_metrics df)) = length df"
  by (simp_all add: calculate_oee_metrics_def spc_calculate_oee_metrics_def Let_def)


text \<open>
  Claim C1. For every table and every row \<open>i\<close> of it, both versions of
  \<open>calculate_oee_metrics\<close> compute the OEE cell as the product of the Availability,
  Performance and Quality cells of the same row, where Availability is
  \<open>(420 - Downtime_Total) / 420\<close>, Performance is
  \<open>(optimal_cycle_time \<times> Production_Volume) / 420\<close> and Quality is
  \<open>(Production_Volume - Defects_Total) / Production_Volume\<close>. When the optimal cycle
  time is finite and the volume is not 0, the OEE cell is the finite product of the
  three quotients. (On a volume of 0 the dashboard's Quality is NaN and the other
  version's an infinity or NaN; the product rule is the same.)
\<close>

theorem oee_is_product_of_factors:
  assumes "i < length df"
  shows "Availability (calculate_oee_metrics df) ! i =
           fdiv (fsub (Fin 420) (Fin (Downtime_Total (df ! i)))) (Fin 420) \<and>
         Performance (calculate_oee_metrics df) ! i =
           fdiv (fmul (optimal_cycle_time df) (Fin (real_of_int (Production_Volume (df ! i)))))
                (Fin 420) \<and>
         Quality (calculate_oee_metrics df) ! i =
           fdiv (Fin (real_of_int (Production_Volume (df ! i) - Defects_Total (df ! i))))
                (if Production_Volume (df ! i) = 0 then NaN
                 else Fin (real_of_int (Production_Volume (df ! i)))) \<and>
         OEE (calculate_oee_metrics df) ! i =
           fmul (fmul (Availability (calculate_oee_metrics df) ! i)
                      (Performance (calculate_oee_metrics df) ! i))
                (Quality (calculate_oee_metrics df) ! i) \<and>
         spc_availability (spc_calculate_oee_metrics df) ! i =
           fdiv (fsub (Fin 420) (Fin (Downtime_Total (df ! i)))) (Fin 420) \<and>
         spc_performance (spc_calculate_oee_metrics df) ! i =
           fdiv (fmul (optimal_cycle_time df) (Fin (real_of_int (Production_Volume (df ! i)))))
                (Fin 420) \<and>
         spc_quality (spc_calculate_oee_metrics df) ! i =
           fdiv (Fin (real_of_int (Production_Volume (df ! i) - Defects_Total (df ! i))))
                (Fin (real_of_int (Production_Volume (df ! i)))) \<and>
         spc_OEE (spc_calculate_oee_metrics df) ! i =
           fmul (fmul (spc_availability (spc_calculate_oee_metrics df) ! i)
                      (spc_performance (spc_calculate_oee_metrics df) ! i))
                (spc_quality (spc_calculate_oee_metrics df) ! i) \<and>
         (\<forall>c. optimal_cycle_time df = Fin c \<and> Production_Volume (df ! i) \<noteq> 0 \<longrightarrow>
            OEE (calculate_oee_metrics df) ! i =
              Fin ((420 - Downtime_Total (df ! i)) / 420 *
                   (c * real_of_int (Production_Volume (df ! i)) / 420) *
                   (real_of_int (Production_Volume (df ! i) - Defects_Total (df ! i)) /
                    real_of_int (Production_Volume (df ! i)))) \<and>
            spc_OEE (spc_calculate_oee_metrics df) ! i = OEE (calculate_oee_metrics df) ! i)"
proof -
  note d = calculate_oee_metrics_cells [OF assms]
  note s = spc_calculate_oee_metrics_cells [OF assms]
  have fin: "OEE (calculate_oee_metrics df) ! i =
        Fin ((420 - Downtime_Total (df ! i)) / 420 *
             (c * real_of_int (Production_Volume (df ! i)) / 420) *
             (real_of_int (Production_Volume (df ! i) - Defects_Total (df ! i)) /
              real_of_int (Production_Volume (df ! i)))) \<and>
      spc_OEE (spc_calculate_oee_metrics df) ! i = OEE (calculate_oee_metrics df) ! i"
    if "optimal_cycle_time df = Fin c" "Production_Volume (df ! i) \<noteq> 0" for c
    unfolding d(5) s(4) unfolding d(2,3,4) s(1,2,3) using that by (simp add: fsub_def)
  show ?thesis
    using d(2,3,4,5) s fin by blast
qed

lemma optimal_cycle_time_sample: "optimal_cycle_time sample_frame = Fin 1"
  by (simp add: optimal_cycle_time_def sample_frame_def series_mean_def series_sum_def
        series_std_def fsub_def power2_eq_square)

theorem oee_is_product_of_factors_witness:
  "0 < length sample_frame \<and>
   OEE (calculate_oee_metrics sample_frame) ! 0 = Fin (9 / 10 * (100 / 420) * (95 / 100)) \<and>
   spc_OEE (spc_calculate_oee_metrics sample_frame) ! 0 = Fin (9 / 10 * (100 / 420) * (95 / 100))"
proof -
  have len: "0 < length sample_frame"
    by (simp add: sample_frame_def)
  have row: "Production_Volume (sample_frame ! 0) = 100" "Defects_Total (sample_frame ! 0) = 5"
    "Downtime_Total (sample_frame ! 0) = 42"
    by (simp_all add: sample_frame_def)
  from oee_is_product_of_factors [OF len]
  have "\<forall>c. optimal_cycle_time sample_frame = Fin c \<and> Production_Volume (sample_frame ! 0) \<noteq> 0 \<longrightarrow>
      OEE (calculate_oee_metrics sample_frame) ! 0 =
        Fin ((420 - Downtime_Total (sample_frame ! 0)) / 420 *
             (c * real_of_int (Production_Volume (sample_frame ! 0)) / 420) *
             (real_of_int (Production_Volume (sample_frame ! 0) - Defects_Total (sample_frame ! 0)) /
              real_of_int (Production_Volume (sample_frame ! 0)))) \<and>
      spc_OEE (spc_calculate_oee_metrics sample_frame) ! 0 =
        OEE (calculate_oee_metrics sample_frame) ! 0"
    by (elim conjE)
  with optimal_cycle_time_sample row(1)
  have "OEE (calculate_oee_metrics sample_frame) ! 0 =
        Fin ((420 - Downtime_Total (sample_frame ! 0)) / 420 *
             (1 * real_of_int (Production_Volume (sample_frame ! 0)) / 420) *
             (real_of_int (Production_Volume (sample_frame ! 0) - Defects_Total (sample_frame ! 0)) /
              real_of_int (Production_Volume (sample_frame ! 0)))) \<and>
      spc_OEE (spc_calculate_oee_metrics sample_frame) ! 0 =
        OEE (calculate_oee_metrics sample_frame) ! 0"
    by simp
  then show ?thesis
    using len unfolding row by simp
qed

section \<open>The range of Quality\<close>

text \<open>
  Claim C2 fails on a row of \<open>simulate_new_row\<close>. From a last row with 10 units and
  4 defects, the draws \<open>-9\<close> and \<open>+2\<close>, both within their ranges, give a row with
  1 unit and 6 defects, whose Quality is \<open>(1 - 6) / 1 = -5\<close>.
\<close>

theorem quality_counterexample:
  "sim_draws_ok \<lparr>volume_step = - 9, defects_step = 2, downtime_step = 0, cycle_step = 0\<rparr> \<and>
   simulate_new_row
     [\<lparr>Date = 0, Line = ''A'', Production_Volume = 10, Defects_Total = 4,
        Downtime_Total = 10, Average_Cycle_Time = 2\<rparr>]
     \<lparr>volume_step = - 9, defects_step = 2, downtime_step = 0, cycle_step = 0\<rparr> =
   Inr [\<lparr>Date = 1, Line = ''A'', Production_Volume = 1, Defects_Total = 6,
          Downtime_Total = 10, Average_Cycle_Time = 2\<rparr>] \<and>
   Quality (calculate_oee_metrics
     [\<lparr>Date = 1, Line = ''A'', Production_Volume = 1, Defects_Total = 6,
        Downtime_Total = 10, Average_Cycle_Time = 2\<rparr>]) ! 0 = Fin (- 5) \<and>
   \<not> fval_between 0 1 (Fin (- 5))"
  by (simp add: sim_draws_ok_def randint_draw_def uniform_draw_def simulate_new_row_def
        calculate_oee_metrics_def Let_def)

lemma quality_cell:
  assumes "i < length df" "Production_Volume (df ! i) \<noteq> 0"
  shows "Quality (calculate_oee_metrics df) ! i =
     Fin (1 - real_of_int (Defects_Total (df ! i)) / real_of_int (Production_Volume (df ! i)))"
  using assms by (simp add: calculate_oee_metrics_cells(4) diff_divide_distrib)

lemma simulate_new_row_last:
  assumes "simulate_new_row df0 dr = Inr df"
  shows "df \<noteq> [] \<and> 0 \<le> Production_Volume (last df) \<and> 0 \<le> Defects_Total (last df)"
proof -
  have ne: "df0 \<noteq> []"
    using assms by (auto simp: simulate_new_row_def)
  from simulate_new_row_shape [OF ne, of dr] assms show ?thesis
    by auto
qed

text \<open>
  Claim C2, amended. For every row of the table with Production\_Volume above 0 and
  \<open>0 \<le> Defects_Total \<le> Production_Volume\<close>, the Quality cell is finite and lies in
  \<open>[0, 1]\<close>. A row produced by \<open>simulate_new_row\<close> has Defects\_Total at least 0, so
  when its Production\_Volume is above 0 its Quality is finite and at most 1, and it is
  at least 0 exactly when the defects do not exceed the volume.
\<close>

theorem quality_in_unit_interval:
  "(i < length df \<and> 0 < Production_Volume (df ! i) \<and>
    0 \<le> Defects_Total (df ! i) \<and> Defects_Total (df ! i) \<le> Production_Volume (df ! i) \<longrightarrow>
      fval_between 0 1 (Quality (calculate_oee_metrics df) ! i)) \<and>
   (simulate_new_row df0 dr = Inr df \<and> 0 < Production_Volume (last df) \<longrightarrow>
      (\<exists>q. last (Quality (calculate_oee_metrics df)) = Fin q \<and> q \<le> 1 \<and>
           (0 \<le> q \<longleftrightarrow> Defects_Total (last df) \<le> Production_Volume (last df))))"
proof (intro conjI impI)
  assume a: "i < length df \<and> 0 < Production_Volume (df ! i) \<and>
    0 \<le> Defects_Total (df ! i) \<and> Defects_Total (df ! i) \<le> Production_Volume (df ! i)"
  then have q: "Quality (calculate_oee_metrics df) ! i =
     Fin (1 - real_of_int (Defects_Total (df ! i)) / real_of_int (Production_Volume (df ! i)))"
    by (simp add: quality_cell)
  have "0 \<le> real_of_int (Defects_Total (df ! i)) / real_of_int (Production_Volume (df ! i))"
    using a by simp
  moreover have "real_of_int (Defects_Total (df ! i)) / real_of_int (Production_Volume (df ! i)) \<le> 1"
    using a by simp
  ultimately show "fval_between 0 1 (Quality (calculate_oee_metrics df) ! i)"
    unfolding q by simp
next
  assume b: "simulate_new_row df0 dr = Inr df \<and> 0 < Production_Volume (last df)"
  then have l: "df \<noteq> []" "0 \<le> Defects_Total (last df)"
    using simulate_new_row_last by blast+
  define i where "i = length df - 1"
  have i: "i < length df" "last df = df ! i"
    using l(1) by (simp_all add: i_def last_conv_nth)
  have "Quality (calculate_oee_metrics df) \<noteq> []"
    using l(1) calculate_oee_metrics_lengths(3) [of df] by auto
  then have lq: "last (Quality (calculate_oee_metrics df)) = Quality (calculate_oee_metrics df) ! i"
    by (simp add: last_conv_nth i_def calculate_oee_metrics_lengths(3))
  have pv: "0 < real_of_int (Production_Volume (df ! i))"
    using b i(2) by simp
  have q: "last (Quality (calculate_oee_metrics df)) =
     Fin (1 - real_of_int (Defects_Total (df ! i)) / real_of_int (Production_Volume (df ! i)))"
    unfolding lq using i(1) pv by (simp add: quality_cell)
  have "0 \<le> real_of_int (Defects_Total (df ! i)) / real_of_int (Production_Volume (df ! i))"
    using l(2) pv i(2) by simp
  moreover have "0 \<le> 1 - real_of_int (Defects_Total (df ! i)) / real_of_int (Production_Volume (df ! i))
      \<longleftrightarrow> Defects_Total (df ! i) \<le> Production_Volume (df ! i)"
    using pv by (simp add: pos_divide_le_eq)
  ultimately show "\<exists>q. last (Quality (calculate_oee_metrics df)) = Fin q \<and> q \<le> 1 \<and>
           (0 \<le> q \<longleftrightarrow> Defects_Total (last df) \<le> Production_Volume (last df))"
    unfolding q i(2) by simp
qed


theorem quality_in_unit_interval_witness:
  "simulate_new_row sample_frame
     \<lparr>volume_step = 5, defects_step = - 1, downtime_step = 0, cycle_step = 0\<rparr> =
     Inr [\<lparr>Date = 1, Line = ''A'', Production_Volume = 90, Defects_Total = 0,
            Downtime_Total = 0, Average_Cycle_Time = 2\<rparr>,
          \<lparr>Date = 2, Line = ''A'', Production_Volume = 10, Defects_Total = 4,
            Downtime_Total = 84, Average_Cycle_Time = 3\<rparr>,
          \<lparr>Date = 3, Line = ''A'', Production_Volume = 15, Defects_Total = 3,
            Downtime_Total = 84, Average_Cycle_Time = 3\<rparr>] \<and>
   fval_between 0 1 (Quality (calculate_oee_metrics
         [\<lparr>Date = 1, Line = ''A'', Production_Volume = 90, Defects_Total = 0,
            Downtime_Total = 0, Average_Cycle_Time = 2\<rparr>,
          \<lparr>Date = 2, Line = ''A'', Production_Volume = 10, Defects_Total = 4,
            Downtime_Total = 84, Average_Cycle_Time = 3\<rparr>,
          \<lparr>Date = 3, Line = ''A'', Production_Volume = 15, Defects_Total = 3,
            Downtime_Total = 84, Average_Cycle_Time = 3\<rparr>]) ! 1) \<and>
   last (Quality (calculate_oee_metrics
         [\<lparr>Date = 1, Line = ''A'', Production_Volume = 90, Defects_Total = 0,
            Downtime_Total = 0, Average_Cycle_Time = 2\<rparr>,
          \<lparr>Date = 2, Line = ''A'', Production_Volume = 10, Defects_Total = 4,
            Downtime_Total = 84, Average_Cycle_Time = 3\<rparr>,
          \<lparr>Date = 3, Line = ''A'', Production_Volume = 15, Defects_Total = 3,
            Downtime_Total = 84, Average_Cycle_Time = 3\<rparr>])) = Fin (4 / 5)"
  using quality_in_unit_interval
    [of 1 "[\<lparr>Date = 1, Line = ''A'', Production_Volume = 90, Defects_Total = 0,
            Downtime_Total = 0, Average_Cycle_Time = 2\<rparr>,
          \<lparr>Date = 2, Line = ''A'', Production_Volume = 10, Defects_Total = 4,
            Downtime_Total = 84, Average_Cycle_Time = 3\<rparr>,
          \<lparr>Date = 3, Line = ''A'', Production_Volume = 15, Defects_Total = 3,
            Downtime_Total = 84, Average_Cycle_Time = 3\<rparr>]" sample_frame
        "\<lparr>volume_step = 5, defects_step = - 1, downtime_step = 0, cycle_step = 0\<rparr>"]
  by (simp add: simulate_new_row_def sample_frame_def calculate_oee_metrics_def Let_def)

section \<open>The p-chart\<close>

lemma sum_list_volume_pos:
  assumes "\<forall>r\<in>set df. 0 < Production_Volume r" "df \<noteq> []"
  shows "0 < sum_list (map Production_Volume df)"
  using assms
proof (induction df)
  case Nil
  then show ?case by simp
next
  case (Cons r df)
  show ?case
  proof (cases "df = []")
    case True
    with Cons.prems show ?thesis by simp
  next
    case False
    with Cons have "0 < sum_list (map Production_Volume df)" by simp
    moreover have "0 < Production_Volume r" using Cons.prems by simp
    ultimately show ?thesis by simp
  qed
qed

lemma p_chart_cells:
  assumes "i < length df"
  shows "UCL (p_chart df) ! i =
           fadd (p_bar (p_chart df)) (fmul (Fin 3)
             (fsqrt (fdiv (fmul (p_bar (p_chart df)) (fsub (Fin 1) (p_bar (p_chart df))))
                          (Fin (real_of_int (Production_Volume (df ! i)))))))"
    and "LCL (p_chart df) ! i =
           fsub (p_bar (p_chart df)) (fmul (Fin 3)
             (fsqrt (fdiv (fmul (p_bar (p_chart df)) (fsub (Fin 1) (p_bar (p_chart df))))
                          (Fin (real_of_int (Production_Volume (df ! i)))))))"
  using assms by (simp_all add: p_chart_def Let_def)

lemma p_chart_centre:
  assumes "\<forall>r\<in>set df. 0 < Production_Volume r" "df \<noteq> []"
  shows "p_bar (p_chart df) =
     Fin (real_of_int (sum_list (map Defects_Total df)) /
          real_of_int (sum_list (map Production_Volume df)))"
  using sum_list_volume_pos [OF assms] by (simp add: p_chart_def Let_def)

text \<open>
  Claim C5. For every dataframe whose rows all have Production\_Volume above 0 and
  every row \<open>i\<close> of it, the centre line of \<open>p_chart\<close> is
  \<open>p_bar = \<Sum>Defects_Total / \<Sum>Production_Volume\<close>, and the limits of the row are
  \<open>UCL = p_bar + h\<close> and \<open>LCL = p_bar - h\<close> with the same
  \<open>h = 3 \<times> sqrt (p_bar (1 - p_bar) / Production_Volume)\<close>, so the two limits are
  symmetric about the centre line: \<open>UCL - p_bar = p_bar - LCL\<close>. The limits are finite
  when \<open>p_bar (1 - p_bar)\<close> is not negative; when it is negative the square root, and
  with it both limits, are NaN.
\<close>

theorem p_chart_limits:
  assumes "\<forall>r\<in>set df. 0 < Production_Volume r" and "i < length df"
  shows "\<exists>pb h. pb = real_of_int (sum_list (map Defects_Total df)) /
                     real_of_int (sum_list (map Production_Volume df)) \<and>
           p_bar (p_chart df) = Fin pb \<and>
           h = fmul (Fin 3) (fsqrt (Fin (pb * (1 - pb) / real_of_int (Production_Volume (df ! i))))) \<and>
           UCL (p_chart df) ! i = fadd (Fin pb) h \<and>
           LCL (p_chart df) ! i = fsub (Fin pb) h \<and>
           fsub (UCL (p_chart df) ! i) (Fin pb) = fsub (Fin pb) (LCL (p_chart df) ! i) \<and>
           (0 \<le> pb * (1 - pb) \<longrightarrow>
              UCL (p_chart df) ! i =
                Fin (pb + 3 * sqrt (pb * (1 - pb) / real_of_int (Production_Volume (df ! i)))) \<and>
              LCL (p_chart df) ! i =
                Fin (pb - 3 * sqrt (pb * (1 - pb) / real_of_int (Production_Volume (df ! i))))) \<and>
           (pb * (1 - pb) < 0 \<longrightarrow> UCL (p_chart df) ! i = NaN \<and> LCL (p_chart df) ! i = NaN)"
proof -
  define pb where "pb = real_of_int (sum_list (map Defects_Total df)) /
                     real_of_int (sum_list (map Production_Volume df))"
  define v where "v = real_of_int (Production_Volume (df ! i))"
  define h where "h = fmul (Fin 3) (fsqrt (Fin (pb * (1 - pb) / v)))"
  have ne: "df \<noteq> []" using assms(2) by auto
  have v: "0 < v" using assms by (simp add: v_def)
  have centre: "p_bar (p_chart df) = Fin pb"
    unfolding pb_def using assms(1) ne by (rule p_chart_centre)
  have rad: "fdiv (fmul (Fin pb) (fsub (Fin 1) (Fin pb))) (Fin v) = Fin (pb * (1 - pb) / v)"
    using v by (simp add: fsub_def)
  have ucl: "UCL (p_chart df) ! i = fadd (Fin pb) h"
    unfolding p_chart_cells(1) [OF assms(2)] centre v_def [symmetric] rad h_def ..
  have lcl: "LCL (p_chart df) ! i = fsub (Fin pb) h"
    unfolding p_chart_cells(2) [OF assms(2)] centre v_def [symmetric] rad h_def ..
  have sign: "pb * (1 - pb) / v < 0 \<longleftrightarrow> pb * (1 - pb) < 0"
    using v by (simp add: divide_less_0_iff)
  have sym: "fsub (fadd (Fin pb) h) (Fin pb) = fsub (Fin pb) (fsub (Fin pb) h)"
    unfolding h_def by (simp add: fsub_def)
  have fin: "fadd (Fin pb) h = Fin (pb + 3 * sqrt (pb * (1 - pb) / v))"
      "fsub (Fin pb) h = Fin (pb - 3 * sqrt (pb * (1 - pb) / v))" if "0 \<le> pb * (1 - pb)"
    unfolding h_def using that sign by (simp_all add: fsub_def)
  have nan: "fadd (Fin pb) h = NaN" "fsub (Fin pb) h = NaN" if "pb * (1 - pb) < 0"
    unfolding h_def using that sign by (simp_all add: fsub_def)
  show ?thesis
    using centre ucl lcl sym fin nan unfolding pb_def h_def v_def by auto
qed


theorem p_chart_limits_witness:
  "length sample_frame = 3 \<and> 0 < Production_Volume (sample_frame ! 0) \<and>
   0 < Production_Volume (sample_frame ! 1) \<and> 0 < Production_Volume (sample_frame ! 2) \<and>
   p_bar (p_chart sample_frame) = Fin (9 / 200) \<and>
   UCL (p_chart sample_frame) ! 0 = Fin (9 / 200 + 3 * sqrt (9 / 200 * (1 - 9 / 200) / 100)) \<and>
   LCL (p_chart sample_frame) ! 0 = Fin (9 / 200 - 3 * sqrt (9 / 200 * (1 - 9 / 200) / 100))"
proof -
  have hyp: "\<forall>r\<in>set sample_frame. 0 < Production_Volume r" "0 < length sample_frame"
    by (simp_all add: sample_frame_def)
  have val: "real_of_int (sum_list (map Defects_Total sample_frame)) /
      real_of_int (sum_list (map Production_Volume sample_frame)) = 9 / 200"
    "real_of_int (Production_Volume (sample_frame ! 0)) = 100"
    by (simp_all add: sample_frame_def)
  have pos: "(0::real) \<le> 9 / 200 * (1 - 9 / 200)" by simp
  from p_chart_limits [OF hyp] pos
  have "p_bar (p_chart sample_frame) = Fin (9 / 200) \<and>
     UCL (p_chart sample_frame) ! 0 = Fin (9 / 200 + 3 * sqrt (9 / 200 * (1 - 9 / 200) / 100)) \<and>
     LCL (p_chart sample_frame) ! 0 = Fin (9 / 200 - 3 * sqrt (9 / 200 * (1 - 9 / 200) / 100))"
    unfolding val by blast
  then show ?thesis by (simp add: sample_frame_def)
qed

section \<open>The I-MR charts\<close>

lemma series_diff_abs:
  assumes "xs \<noteq> []"
  shows "map fabs (series_diff xs) = NaN # map Fin (spec_moving_ranges xs)"
proof -
  from assms obtain x ys where xs: "xs = x # ys" by (cases xs) auto
  have "map fabs (map2 (\<lambda>prev cur. Fin (cur - prev)) (x # ys) ys) =
        map Fin (map (\<lambda>k. \<bar>(x # ys) ! (k + 1) - (x # ys) ! k\<bar>) [0..<length ys])"
    by (rule nth_equalityI) simp_all
  then show ?thesis
    unfolding xs spec_moving_ranges_def by simp
qed

lemma series_mean_NaN_Cons: "series_mean (NaN # xs) = series_mean xs"
  by (simp add: series_mean_def series_sum_def)

lemma moving_range_mean:
  assumes "2 \<le> length xs"
  shows "series_mean (map fabs (series_diff xs)) =
     Fin (sum_list (spec_moving_ranges xs) / real (length xs - 1))"
proof -
  have ne: "xs \<noteq> []" using assms by auto
  have "spec_moving_ranges xs \<noteq> []" "length (spec_moving_ranges xs) = length xs - 1"
    using assms by (auto simp: spec_moving_ranges_def)
  then show ?thesis
    unfolding series_diff_abs [OF ne] series_mean_NaN_Cons series_mean_Fin by simp
qed

lemma limit_above: "fadd (Fin m) (fmul (Fin 3) (fdiv (Fin b) (Fin 1.128))) = Fin (m + 3 * (b / 1.128))"
  by simp

lemma limit_below: "fsub (Fin m) (fmul (Fin 3) (fdiv (Fin b) (Fin 1.128))) = Fin (m - 3 * (b / 1.128))"
  by (simp add: fsub_def)

lemma imr_chart_cycle_time_cells:
  assumes "2 \<le> length df" "i < length df"
  shows "MR_bar (imr_chart_cycle_time df) =
           Fin (sum_list (spec_moving_ranges (map Average_Cycle_Time df)) / real (length df - 1))"
    and "Cycle_Time_Mean (imr_chart_cycle_time df) ! i =
           Fin (sum_list (map Average_Cycle_Time df) / real (length df))"
    and "UCL_I (imr_chart_cycle_time df) ! i = Fin (fst (spec_imr_limits (map Average_Cycle_Time df)))"
    and "LCL_I (imr_chart_cycle_time df) ! i = Fin (snd (spec_imr_limits (map Average_Cycle_Time df)))"
proof -
  have ne: "map Average_Cycle_Time df \<noteq> []" using assms by auto
  have m: "series_mean (map (\<lambda>r. Fin (Average_Cycle_Time r)) df) =
      Fin (sum_list (map Average_Cycle_Time df) / real (length df))"
    using series_mean_Fin [of "map Average_Cycle_Time df"] ne by (simp add: comp_def)
  have mr: "series_mean (map fabs (series_diff (map Average_Cycle_Time df))) =
      Fin (sum_list (spec_moving_ranges (map Average_Cycle_Time df)) / real (length df - 1))"
    using moving_range_mean [of "map Average_Cycle_Time df"] assms(1) by simp
  show b: "MR_bar (imr_chart_cycle_time df) =
           Fin (sum_list (spec_moving_ranges (map Average_Cycle_Time df)) / real (length df - 1))"
    by (simp add: imr_chart_cycle_time_def Let_def mr)
  show c: "Cycle_Time_Mean (imr_chart_cycle_time df) ! i =
           Fin (sum_list (map Average_Cycle_Time df) / real (length df))"
    using assms(2) by (simp add: imr_chart_cycle_time_def Let_def m)
  have u: "UCL_I (imr_chart_cycle_time df) ! i =
      fadd (Cycle_Time_Mean (imr_chart_cycle_time df) ! i)
           (fmul (Fin 3) (fdiv (MR_bar (imr_chart_cycle_time df)) (Fin 1.128)))"
    using assms(2) by (simp add: imr_chart_cycle_time_def Let_def)
  have l: "LCL_I (imr_chart_cycle_time df) ! i =
      fsub (Cycle_Time_Mean (imr_chart_cycle_time df) ! i)
           (fmul (Fin 3) (fdiv (MR_bar (imr_chart_cycle_time df)) (Fin 1.128)))"
    using assms(2) by (simp add: imr_chart_cycle_time_def Let_def)
  show "UCL_I (imr_chart_cycle_time df) ! i = Fin (fst (spec_imr_limits (map Average_Cycle_Time df)))"
    unfolding u b c spec_imr_limits_def Let_def fst_conv length_map by (rule limit_above)
  show "LCL_I (imr_chart_cycle_time df) ! i = Fin (snd (spec_imr_limits (map Average_Cycle_Time df)))"
    unfolding l b c spec_imr_limits_def Let_def snd_conv length_map by (rule limit_below)
qed

lemma imr_chart_downtime_cells:
  assumes "2 \<le> length df" "i < length df"
  shows "MR_bar_Downtime (imr_chart_downtime df) =
           Fin (sum_list (spec_moving_ranges (map Downtime_Total df)) / real (length df - 1))"
    and "Downtime_Mean (imr_chart_downtime df) ! i =
           Fin (sum_list (map Downtime_Total df) / real (length df))"
    and "UCL_Downtime (imr_chart_downtime df) ! i = Fin (fst (spec_imr_limits (map Downtime_Total df)))"
    and "LCL_Downtime (imr_chart_downtime df) ! i = Fin (snd (spec_imr_limits (map Downtime_Total df)))"
proof -
  have ne: "map Downtime_Total df \<noteq> []" using assms by auto
  have m: "series_mean (map (\<lambda>r. Fin (Downtime_Total r)) df) =
      Fin (sum_list (map Downtime_Total df) / real (length df))"
    using series_mean_Fin [of "map Downtime_Total df"] ne by (simp add: comp_def)
  have mr: "series_mean (map fabs (series_diff (map Downtime_Total df))) =
      Fin (sum_list (spec_moving_ranges (map Downtime_Total df)) / real (length df - 1))"
    using moving_range_mean [of "map Downtime_Total df"] assms(1) by simp
  show b: "MR_bar_Downtime (imr_chart_downtime df) =
           Fin (sum_list (spec_moving_ranges (map Downtime_Total df)) / real (length df - 1))"
    by (simp add: imr_chart_downtime_def Let_def mr)
  show c: "Downtime_Mean (imr_chart_downtime df) ! i =
           Fin (sum_list (map Downtime_Total df) / real (length df))"
    using assms(2) by (simp add: imr_chart_downtime_def Let_def m)
  have u: "UCL_Downtime (imr_chart_downtime df) ! i =
      fadd (Downtime_Mean (imr_chart_downtime df) ! i)
           (fmul (Fin 3) (fdiv (MR_bar_Downtime (imr_chart_downtime df)) (Fin 1.128)))"
    using assms(2) by (simp add: imr_chart_downtime_def Let_def)
  have l: "LCL_Downtime (imr_chart_downtime df) ! i =
      fsub (Downtime_Mean (imr_chart_downtime df) ! i)
           (fmul (Fin 3) (fdiv (MR_bar_Downtime (imr_chart_downtime df)) (Fin 1.128)))"
    using assms(2) by (simp add: imr_chart_downtime_def Let_def)
  show "UCL_Downtime (imr_chart_downtime df) ! i = Fin (fst (spec_imr_limits (map Downtime_Total df)))"
    unfolding u b c spec_imr_limits_def Let_def fst_conv length_map by (rule limit_above)
  show "LCL_Downtime (imr_chart_downtime df) ! i = Fin (snd (spec_imr_limits (map Downtime_Total df)))"
    unfolding l b c spec_imr_limits_def Let_def snd_conv length_map by (rule limit_below)
qed


text \<open>
  Claim C6. For every dataframe with at least two rows and every row \<open>i\<close> of it, the
  limits of \<open>imr_chart_cycle_time\<close> are \<open>mean + 3 \<times> (MR_bar / 1.128)\<close> and
  \<open>mean - 3 \<times> (MR_bar / 1.128)\<close>, where \<open>mean\<close> is the mean of Average\_Cycle\_Time
  and \<open>MR_bar\<close> the mean of the absolute first differences of that series (the NaN of
  the first cell of the moving range being skipped); and the same holds for
  \<open>imr_chart_downtime\<close> on Downtime\_Total.
\<close>

theorem imr_chart_limits:
  assumes "2 \<le> length df" and "i < length df"
  shows "(let xs = map Average_Cycle_Time df;
              mean = sum_list xs / real (length xs);
              mr_bar = sum_list (spec_moving_ranges xs) / real (length xs - 1)
          in MR (imr_chart_cycle_time df) = NaN # map Fin (spec_moving_ranges xs) \<and>
             MR_bar (imr_chart_cycle_time df) = Fin mr_bar \<and>
             UCL_I (imr_chart_cycle_time df) ! i = Fin (mean + 3 * (mr_bar / 1.128)) \<and>
             LCL_I (imr_chart_cycle_time df) ! i = Fin (mean - 3 * (mr_bar / 1.128))) \<and>
         (let xs = map Downtime_Total df;
              mean = sum_list xs / real (length xs);
              mr_bar = sum_list (spec_moving_ranges xs) / real (length xs - 1)
          in MR_Downtime (imr_chart_downtime df) = NaN # map Fin (spec_moving_ranges xs) \<and>
             MR_bar_Downtime (imr_chart_downtime df) = Fin mr_bar \<and>
             UCL_Downtime (imr_chart_downtime df) ! i = Fin (mean + 3 * (mr_bar / 1.128)) \<and>
             LCL_Downtime (imr_chart_downtime df) ! i = Fin (mean - 3 * (mr_bar / 1.128)))"
proof -
  have ne: "map Average_Cycle_Time df \<noteq> []" "map Downtime_Total df \<noteq> []"
    using assms by auto
  have mr: "MR (imr_chart_cycle_time df) =
      NaN # map Fin (spec_moving_ranges (map Average_Cycle_Time df))"
    "MR_Downtime (imr_chart_downtime df) =
      NaN # map Fin (spec_moving_ranges (map Downtime_Total df))"
    using ne
    by (simp_all add: imr_chart_cycle_time_def imr_chart_downtime_def Let_def series_diff_abs)
  note c = imr_chart_cycle_time_cells [OF assms]
  note d = imr_chart_downtime_cells [OF assms]
  show ?thesis
    unfolding Let_def length_map mr c(1,3,4) d(1,3,4) spec_imr_limits_def fst_conv snd_conv
    by simp
qed

theorem imr_chart_limits_witness:
  "2 \<le> length sample_frame \<and> 0 < length sample_frame \<and>
   UCL_I (imr_chart_cycle_time sample_frame) ! 0 = Fin (2 + 3 * (1 / 1.128)) \<and>
   LCL_I (imr_chart_cycle_time sample_frame) ! 0 = Fin (2 - 3 * (1 / 1.128)) \<and>
   UCL_Downtime (imr_chart_downtime sample_frame) ! 0 = Fin (42 + 3 * (63 / 1.128)) \<and>
   LCL_Downtime (imr_chart_downtime sample_frame) ! 0 = Fin (42 - 3 * (63 / 1.128))"
proof -
  have hyp: "2 \<le> length sample_frame" "0 < length sample_frame"
    by (simp_all add: sample_frame_def)
  have c: "sum_list (map Average_Cycle_Time sample_frame) / real (length sample_frame) = 2"
    "sum_list (spec_moving_ranges (map Average_Cycle_Time sample_frame)) /
       real (length sample_frame - 1) = 1"
    by (simp_all add: sample_frame_def spec_moving_ranges_def upt_rec)
  have d: "sum_list (map Downtime_Total sample_frame) / real (length sample_frame) = 42"
    "sum_list (spec_moving_ranges (map Downtime_Total sample_frame)) /
       real (length sample_frame - 1) = 63"
    by (simp_all add: sample_frame_def spec_moving_ranges_def upt_rec)
  from imr_chart_limits [OF hyp]
  have "UCL_I (imr_chart_cycle_time sample_frame) ! 0 = Fin (2 + 3 * (1 / 1.128)) \<and>
   LCL_I (imr_chart_cycle_time sample_frame) ! 0 = Fin (2 - 3 * (1 / 1.128)) \<and>
   UCL_Downtime (imr_chart_downtime sample_frame) ! 0 = Fin (42 + 3 * (63 / 1.128)) \<and>
   LCL_Downtime (imr_chart_downtime sample_frame) ! 0 = Fin (42 - 3 * (63 / 1.128))"
    unfolding Let_def length_map c d by blast
  with hyp show ?thesis by blast
qed

end
